theory Spec2Isabelle
  imports Complex_Main "HOL-Library.Log_Nat"
begin

section \<open>Risk manager and trading engine of the Schwab trading system\<close>

text \<open>
  Shallow embedding of \<^verbatim>\<open>src/core/risk_manager.py\<close> and of the exit and entry paths of
  \<^verbatim>\<open>src/core/trading_engine.py\<close>.

  A finite Python float is the real number it denotes. In position sizing and in the
  trailing stop, where a rounded quotient decides an integer quantity or a threshold
  test, every float operation is the exact operation followed by rounding to binary64
  (round to nearest, ties to even), with overflow to an infinity. In the trading gate,
  the stop-loss price and the PnL bookkeeping the operations are the exact ones. Python
  ints are \<^typ>\<open>int\<close>. Mutation of \<^verbatim>\<open>self\<close> is explicit state passing; the wall clock
  and the broker's answers are inputs.
\<close>

subsection \<open>Values and errors\<close>

datatype py_error = ZeroDivisionError | OverflowError | RequestException

text \<open>A Python number that is an \<^verbatim>\<open>int\<close> or a \<^verbatim>\<open>float\<close>, where the source can yield either.\<close>

datatype py_number = PyInt int | PyFloat real

fun num_value :: "py_number \<Rightarrow> real" where
  "num_value (PyInt i) = real_of_int i"
| "num_value (PyFloat x) = x"

text \<open>\<^verbatim>\<open>int(x)\<close> on a finite float truncates towards zero.\<close>

definition py_int :: "real \<Rightarrow> int" where
  "py_int x = (if 0 \<le> x then \<lfloor>x\<rfloor> else \<lceil>x\<rceil>)"

subsection \<open>Double-precision arithmetic\<close>

text \<open>
  The value of a float expression: a finite number or an infinity. The arguments of the
  functions below are finite, and no operation they perform on such values yields a
  NaN. The two zeros of binary64 compare equal and are one value here.
\<close>

datatype xfloat = Fin real | PInf | NInf

instantiation xfloat :: linorder
begin

fun less_eq_xfloat :: "xfloat \<Rightarrow> xfloat \<Rightarrow> bool" where
  "less_eq_xfloat NInf y = True"
| "less_eq_xfloat (Fin a) NInf = False"
| "less_eq_xfloat (Fin a) (Fin b) = (a \<le> b)"
| "less_eq_xfloat (Fin a) PInf = True"
| "less_eq_xfloat PInf PInf = True"
| "less_eq_xfloat PInf y = False"

definition less_xfloat :: "xfloat \<Rightarrow> xfloat \<Rightarrow> bool" where
  "less_xfloat x y = (x \<le> y \<and> \<not> y \<le> x)"

instance
proof
  fix x y z :: xfloat
  show "(x < y) = (x \<le> y \<and> \<not> y \<le> x)"
    by (simp add: less_xfloat_def)
  show "x \<le> x"
    by (cases x) simp_all
  show "x \<le> y \<Longrightarrow> y \<le> z \<Longrightarrow> x \<le> z"
    by (cases x; cases y; cases z) simp_all
  show "x \<le> y \<Longrightarrow> y \<le> x \<Longrightarrow> x = y"
    by (cases x; cases y) simp_all
  show "x \<le> y \<or> y \<le> x"
    by (cases x; cases y) auto
qed

end

text \<open>\<open>\<lfloor>log\<^sub>2 x\<rfloor>\<close> for \<open>x > 0\<close>, by the bit length of an integer.\<close>

definition ilog2 :: "real \<Rightarrow> int" where
  "ilog2 x = (if 1 \<le> x then bitlen \<lfloor>x\<rfloor> - 1 else - bitlen (\<lceil>1 / x\<rceil> - 1))"

definition round_half_even :: "real \<Rightarrow> int" where
  "round_half_even x =
     (let n = \<lfloor>x\<rfloor>; r = x - of_int n
      in if r < 1 / 2 then n else if 1 / 2 < r then n + 1 else if even n then n else n + 1)"

text \<open>
  Rounding of a real to binary64. The exponent is that of \<open>x\<close>, or \<open>-1022\<close> in the
  subnormal range; the spacing of the doubles there is \<open>2 ^ (e - 52)\<close>; a result of
  magnitude \<open>2 ^ 1024\<close> or more is an infinity.
\<close>

definition to_double :: "real \<Rightarrow> xfloat" where
  "to_double x =
     (if x = 0 then Fin 0
      else let e = max (ilog2 \<bar>x\<bar>) (- 1022);
               ulp = power_int 2 (e - 52);
               y = of_int (round_half_even (\<bar>x\<bar> / ulp)) * ulp
           in if power_int 2 1024 \<le> y then (if 0 < x then PInf else NInf)
              else Fin (sgn x * y))"

text \<open>The double that a decimal literal of the source denotes.\<close>

definition dbl :: "real \<Rightarrow> real" where
  "dbl x = (case to_double x of Fin y \<Rightarrow> y | PInf \<Rightarrow> 0 | NInf \<Rightarrow> 0)"

text \<open>\<^verbatim>\<open>a - b\<close> and \<^verbatim>\<open>a * b\<close> on finite floats.\<close>

definition fsub :: "real \<Rightarrow> real \<Rightarrow> xfloat" where
  "fsub a b = to_double (a - b)"

definition fmul :: "real \<Rightarrow> real \<Rightarrow> xfloat" where
  "fmul a b = to_double (a * b)"

text \<open>\<^verbatim>\<open>x - b\<close>, and \<^verbatim>\<open>x / b\<close> for \<open>b \<noteq> 0\<close> (the source's division raises at zero, which each
  caller tests first), where \<open>x\<close> may be an infinity and \<open>b\<close> is finite.\<close>

fun xsub :: "xfloat \<Rightarrow> real \<Rightarrow> xfloat" where
  "xsub (Fin a) b = to_double (a - b)"
| "xsub PInf b = PInf"
| "xsub NInf b = NInf"

fun xdiv :: "xfloat \<Rightarrow> real \<Rightarrow> xfloat" where
  "xdiv (Fin a) b = to_double (a / b)"
| "xdiv PInf b = (if 0 < b then PInf else NInf)"
| "xdiv NInf b = (if 0 < b then NInf else PInf)"

text \<open>\<^verbatim>\<open>a - x\<close> and \<^verbatim>\<open>a + x\<close>, where \<open>a\<close> is finite and \<open>x\<close> may be an infinity.\<close>

fun rsubx :: "real \<Rightarrow> xfloat \<Rightarrow> xfloat" where
  "rsubx a (Fin b) = to_double (a - b)"
| "rsubx a PInf = NInf"
| "rsubx a NInf = PInf"

fun raddx :: "real \<Rightarrow> xfloat \<Rightarrow> xfloat" where
  "raddx a (Fin b) = to_double (a + b)"
| "raddx a PInf = PInf"
| "raddx a NInf = NInf"

text \<open>\<^verbatim>\<open>abs(x)\<close>\<close>

fun xabs :: "xfloat \<Rightarrow> xfloat" where
  "xabs (Fin a) = Fin \<bar>a\<bar>"
| "xabs PInf = PInf"
| "xabs NInf = PInf"

text \<open>
  \<^verbatim>\<open>datetime\<close>: the calendar date as its proleptic ordinal (\<^verbatim>\<open>date.toordinal()\<close>), and the
  time of day. \<^verbatim>\<open>d.date()\<close> is the ordinal; dates compare as their ordinals do.
\<close>

record datetime =
  ordinal :: int
  hour :: nat
  minute :: nat
  second :: nat
  microsecond :: nat

definition date :: "datetime \<Rightarrow> int" where
  "date d = ordinal d"

text \<open>\<^verbatim>\<open>now.replace(hour=0, minute=0, second=0)\<close>\<close>

definition replace_hms0 :: "datetime \<Rightarrow> datetime" where
  "replace_hms0 d = d\<lparr>hour := 0, minute := 0, second := 0\<rparr>"

subsection \<open>Configuration\<close>

text \<open>The fields of \<^verbatim>\<open>RiskManagementConfig\<close> that the risk manager reads.\<close>

record risk_config =
  max_position_size_pct :: real
  max_total_exposure_pct :: real
  position_sizing_method :: string
  stop_loss_type :: string
  static_stop_loss_pct :: real
  dynamic_stop_loss_atr_multiplier :: real
  trailing_stop_enabled :: bool
  trailing_stop_activation_pct :: real
  trailing_stop_distance_pct :: real
  max_daily_loss_pct :: real
  max_daily_trades :: int
  enable_martingale :: bool
  martingale_max_doublings :: int

text \<open>The defaults of the dataclass \<^verbatim>\<open>RiskManagementConfig\<close>.\<close>

definition default_risk_config :: risk_config where
  "default_risk_config = \<lparr>
     max_position_size_pct = 0.10,
     max_total_exposure_pct = 0.50,
     position_sizing_method = ''kelly_criterion'',
     stop_loss_type = ''dynamic'',
     static_stop_loss_pct = 0.02,
     dynamic_stop_loss_atr_multiplier = 2.0,
     trailing_stop_enabled = True,
     trailing_stop_activation_pct = 0.015,
     trailing_stop_distance_pct = 0.01,
     max_daily_loss_pct = 0.05,
     max_daily_trades = 20,
     enable_martingale = False,
     martingale_max_doublings = 2 \<rparr>"

datatype trading_mode = PAPER | LIVE | BACKTEST

subsection \<open>State of the risk manager\<close>

record risk_manager =
  daily_pnl :: real
  daily_trades :: int
  daily_reset_time :: datetime
  trailing_stops :: "string \<rightharpoonup> xfloat"
  consecutive_losses :: "string \<rightharpoonup> int"

text \<open>\<^verbatim>\<open>RiskManager.__init__\<close>, at wall-clock time \<open>now\<close>.\<close>

definition init_risk_manager :: "datetime \<Rightarrow> risk_manager" where
  "init_risk_manager now = \<lparr>
     daily_pnl = 0,
     daily_trades = 0,
     daily_reset_time = replace_hms0 now,
     trailing_stops = Map.empty,
     consecutive_losses = Map.empty \<rparr>"

subsection \<open>Daily statistics and the trading gate\<close>

definition reset_daily_stats :: "datetime \<Rightarrow> risk_manager \<Rightarrow> risk_manager" where
  "reset_daily_stats now s =
     (if date now > date (daily_reset_time s)
      then s\<lparr>daily_pnl := 0, daily_trades := 0, daily_reset_time := replace_hms0 now\<rparr>
      else s)"

definition record_trade :: "real \<Rightarrow> risk_manager \<Rightarrow> risk_manager" where
  "record_trade pnl s = s\<lparr>daily_pnl := daily_pnl s + pnl, daily_trades := daily_trades s + 1\<rparr>"

text \<open>
  The reason returned by \<^verbatim>\<open>can_trade\<close>. The two refusals are formatted strings in the
  source; each is kept as its message with the value it formats.
\<close>

datatype reason =
    Daily_loss_limit_reached real
  | Daily_trade_limit_reached int
  | OK

definition can_trade ::
  "risk_config \<Rightarrow> datetime \<Rightarrow> real \<Rightarrow> risk_manager \<Rightarrow> (bool \<times> reason) \<times> risk_manager" where
  "can_trade cfg now account_value s0 =
     (let s = reset_daily_stats now s0;
          daily_loss_limit = account_value * max_daily_loss_pct cfg
      in if daily_pnl s < - daily_loss_limit
         then ((False, Daily_loss_limit_reached \<bar>daily_pnl s\<bar>), s)
         else if daily_trades s \<ge> max_daily_trades cfg
         then ((False, Daily_trade_limit_reached (daily_trades s)), s)
         else ((True, OK), s))"

subsection \<open>Position sizing\<close>

text \<open>
  \<^verbatim>\<open>int(max_position_value / entry_price)\<close> raises \<^verbatim>\<open>ZeroDivisionError\<close> at a zero entry
  price and \<^verbatim>\<open>OverflowError\<close> when the quotient is an infinity.
\<close>

definition fixed_fractional_size ::
  "risk_config \<Rightarrow> real \<Rightarrow> real \<Rightarrow> real \<Rightarrow> real \<Rightarrow> py_error + int" where
  "fixed_fractional_size cfg entry_price stop_loss_price account_value current_positions_value =
     (let risk_per_share = xabs (fsub entry_price stop_loss_price);
          max_position_value = fmul account_value (max_position_size_pct cfg);
          remaining_exposure =
            xsub (fmul account_value (max_total_exposure_pct cfg)) current_positions_value;
          max_position_value = min max_position_value remaining_exposure
      in if max_position_value \<le> Fin 0 then Inr 0
         else if entry_price = 0 then Inl ZeroDivisionError
         else case xdiv max_position_value entry_price of
                Fin q \<Rightarrow> Inr (max 0 (py_int q))
              | PInf \<Rightarrow> Inl OverflowError
              | NInf \<Rightarrow> Inl OverflowError)"

text \<open>
  The local \<^verbatim>\<open>kelly_pct\<close> of \<^verbatim>\<open>_kelly_criterion_size\<close> after its three assignments:
  the Kelly percentage at the assumed win/loss ratio 2.0, halved, floored at 0 and
  capped at \<^verbatim>\<open>max_position_size_pct\<close>. The halved value \<open>h\<close> may have overflowed;
  \<^verbatim>\<open>min(max(0, h), cap)\<close> is finite in each case: \<open>inf * 0.5\<close> is \<open>inf\<close>, \<open>max(0, inf)\<close> is
  \<open>inf\<close> and \<open>min(inf, cap)\<close> is \<open>cap\<close>; \<open>max(0, -inf)\<close> is \<open>0\<close>.
\<close>

definition kelly_pct :: "risk_config \<Rightarrow> real \<Rightarrow> real" where
  "kelly_pct cfg win_rate =
     (let avg_win_loss_ratio = 2.0;
          k = rsubx win_rate (xdiv (fsub 1 win_rate) avg_win_loss_ratio);
          h = (case k of Fin a \<Rightarrow> fmul a 0.5 | PInf \<Rightarrow> PInf | NInf \<Rightarrow> NInf)
      in case h of
           Fin a \<Rightarrow> min (max 0 a) (max_position_size_pct cfg)
         | PInf \<Rightarrow> max_position_size_pct cfg
         | NInf \<Rightarrow> min 0 (max_position_size_pct cfg))"

definition kelly_criterion_size ::
  "risk_config \<Rightarrow> real \<Rightarrow> real \<Rightarrow> real \<Rightarrow> real \<Rightarrow> real \<Rightarrow> py_error + int" where
  "kelly_criterion_size cfg entry_price stop_loss_price account_value current_positions_value
       win_rate =
     (let max_position_value = fmul account_value (kelly_pct cfg win_rate);
          remaining_exposure =
            xsub (fmul account_value (max_total_exposure_pct cfg)) current_positions_value;
          max_position_value = min max_position_value remaining_exposure
      in if max_position_value \<le> Fin 0 then Inr 0
         else if entry_price = 0 then Inl ZeroDivisionError
         else case xdiv max_position_value entry_price of
                Fin q \<Rightarrow> Inr (max 0 (py_int q))
              | PInf \<Rightarrow> Inl OverflowError
              | NInf \<Rightarrow> Inl OverflowError)"

definition volatility_adjusted_size ::
  "risk_config \<Rightarrow> string \<Rightarrow> real \<Rightarrow> real \<Rightarrow> real \<Rightarrow> real \<Rightarrow> py_error + int" where
  "volatility_adjusted_size cfg symbol entry_price stop_loss_price account_value
       current_positions_value =
     fixed_fractional_size cfg entry_price stop_loss_price account_value current_positions_value"

text \<open>An optional float is truthy when it is given and not zero.\<close>

fun truthy :: "real option \<Rightarrow> bool" where
  "truthy None = False"
| "truthy (Some x) = (x \<noteq> 0)"

definition calculate_position_size ::
  "risk_config \<Rightarrow> string \<Rightarrow> real \<Rightarrow> real \<Rightarrow> real \<Rightarrow> real \<Rightarrow> real option \<Rightarrow> py_error + int" where
  "calculate_position_size cfg symbol entry_price stop_loss_price account_value
       current_positions_value win_rate =
     (let method = position_sizing_method cfg
      in if method = ''fixed_fractional''
         then fixed_fractional_size cfg entry_price stop_loss_price account_value
                current_positions_value
         else if method = ''kelly_criterion'' \<and> truthy win_rate
         then kelly_criterion_size cfg entry_price stop_loss_price account_value
                current_positions_value (the win_rate)
         else if method = ''volatility_adjusted''
         then volatility_adjusted_size cfg symbol entry_price stop_loss_price account_value
                current_positions_value
         else fixed_fractional_size cfg entry_price stop_loss_price account_value
                current_positions_value)"

subsection \<open>Stops\<close>


text \<open>
  \<^verbatim>\<open>update_trailing_stop\<close>: the returned optional price and the state after the call.
  The profit ratio divides by \<^verbatim>\<open>entry_price\<close>, which raises at zero before anything is
  stored. \<open>profit_pct\<close> is its local \<^verbatim>\<open>profit_pct\<close> (for a non-zero entry price) and
  \<open>trail_candidate\<close> its local \<^verbatim>\<open>new_stop\<close> before the comparison with the stored stop.
\<close>

definition profit_pct :: "real \<Rightarrow> real \<Rightarrow> bool \<Rightarrow> xfloat" where
  "profit_pct current_price entry_price is_long =
     (if is_long then xdiv (fsub current_price entry_price) entry_price
      else xdiv (fsub entry_price current_price) entry_price)"

definition trail_candidate :: "risk_config \<Rightarrow> real \<Rightarrow> bool \<Rightarrow> xfloat" where
  "trail_candidate cfg current_price is_long =
     (let trail_distance = fmul current_price (trailing_stop_distance_pct cfg)
      in if is_long then rsubx current_price trail_distance
         else raddx current_price trail_distance)"

definition update_trailing_stop ::
  "risk_config \<Rightarrow> string \<Rightarrow> real \<Rightarrow> real \<Rightarrow> bool \<Rightarrow> risk_manager
     \<Rightarrow> py_error + (xfloat option \<times> risk_manager)" where
  "update_trailing_stop cfg symbol current_price entry_price is_long s =
     (if \<not> trailing_stop_enabled cfg then Inr (None, s)
      else let activation_pct = trailing_stop_activation_pct cfg
      in if is_long
         then (if entry_price = 0 then Inl ZeroDivisionError
               else if profit_pct current_price entry_price True \<ge> Fin activation_pct
                  then (let new_stop = trail_candidate cfg current_price True;
                            new_stop = (case trailing_stops s symbol of
                                          Some existing_stop \<Rightarrow> max new_stop existing_stop
                                        | None \<Rightarrow> new_stop)
                        in Inr (Some new_stop,
                                s\<lparr>trailing_stops := (trailing_stops s)(symbol \<mapsto> new_stop)\<rparr>))
                  else Inr (None, s))
         else (if entry_price = 0 then Inl ZeroDivisionError
               else if profit_pct current_price entry_price False \<ge> Fin activation_pct
                  then (let new_stop = trail_candidate cfg current_price False;
                            new_stop = (case trailing_stops s symbol of
                                          Some existing_stop \<Rightarrow> min new_stop existing_stop
                                        | None \<Rightarrow> new_stop)
                        in Inr (Some new_stop,
                                s\<lparr>trailing_stops := (trailing_stops s)(symbol \<mapsto> new_stop)\<rparr>))
                  else Inr (None, s)))"

subsection \<open>Martingale\<close>

text \<open>
  \<^verbatim>\<open>2 ** losses\<close> is an int for \<^verbatim>\<open>losses >= 0\<close> and the float \<^verbatim>\<open>2.0 ** losses\<close> below
  zero, and so is the product with \<^verbatim>\<open>base_size\<close>.
\<close>

text \<open>\<^verbatim>\<open>self.consecutive_losses.get(symbol, 0)\<close>\<close>

definition loss_count :: "risk_manager \<Rightarrow> string \<Rightarrow> int" where
  "loss_count s symbol = (case consecutive_losses s symbol of Some c \<Rightarrow> c | None \<Rightarrow> 0)"

definition apply_martingale ::
  "risk_config \<Rightarrow> string \<Rightarrow> int \<Rightarrow> bool \<Rightarrow> risk_manager \<Rightarrow> py_number \<times> risk_manager" where
  "apply_martingale cfg symbol base_size lost_previous_trade s =
     (if \<not> enable_martingale cfg then (PyInt base_size, s)
      else let counter = (if lost_previous_trade then loss_count s symbol + 1 else 0);
               s' = s\<lparr>consecutive_losses := (consecutive_losses s)(symbol \<mapsto> counter)\<rparr>;
               losses = min counter (martingale_max_doublings cfg)
           in if 0 \<le> losses
              then (PyInt (base_size * 2 ^ nat losses), s')
              else (PyFloat (real_of_int base_size * power_int 2 losses), s'))"

subsection \<open>Runs of trailing-stop updates\<close>

text \<open>
  One call of \<^verbatim>\<open>update_trailing_stop\<close> as its arguments, and the state a call leaves
  behind: a call that raises has stored nothing.
\<close>

record trailing_call =
  call_symbol :: string
  call_current_price :: real
  call_entry_price :: real
  call_is_long :: bool

definition trailing_step :: "risk_config \<Rightarrow> risk_manager \<Rightarrow> trailing_call \<Rightarrow> risk_manager" where
  "trailing_step cfg s c =
     (case update_trailing_stop cfg (call_symbol c) (call_current_price c) (call_entry_price c)
             (call_is_long c) s of
        Inl err \<Rightarrow> s
      | Inr (new_stop, s') \<Rightarrow> s')"

definition trailing_run :: "risk_config \<Rightarrow> trailing_call list \<Rightarrow> risk_manager \<Rightarrow> risk_manager" where
  "trailing_run cfg calls s = foldl (trailing_step cfg) s calls"

subsection \<open>Trading engine: ledger, exits and entries\<close>

datatype order_instruction = BUY | SELL | BUY_TO_COVER | SELL_SHORT

datatype order_type = MARKET | LIMIT | STOP | STOP_LIMIT | TRAILING_STOP

text \<open>
  An order payload, kept as the \<^verbatim>\<open>OrderBuilder\<close> call that builds it:
  \<^verbatim>\<open>build_equity_order(symbol, quantity, instruction, order_type)\<close> and
  \<^verbatim>\<open>build_bracket_order(symbol, quantity, entry_price, stop_loss_price, take_profit_price, is_long)\<close>.
\<close>

datatype order =
    Equity_order string int order_instruction order_type
  | Bracket_order string int real real real bool

text \<open>An entry of \<^verbatim>\<open>active_positions\<close>; the keys a dict may lack are optional.\<close>

record position_info =
  pos_order_id :: "string option"
  pos_quantity :: int
  pos_entry_price :: real
  pos_stop_loss :: "real option"
  pos_take_profit :: "real option"
  pos_strategy :: string
  pos_entry_time :: datetime
  pos_stop_order_id :: "string option"

record signal =
  sig_symbol :: string
  sig_direction :: string
  sig_strength :: real
  sig_entry_price :: real
  sig_stop_loss :: real
  sig_take_profit :: real
  sig_strategy_name :: string
  sig_timestamp :: datetime


text \<open>
  The engine's state. \<open>submitted\<close> is not a field of the source: it lists, in order, the
  orders that \<^verbatim>\<open>client.place_order\<close> has accepted, so that what reached the broker can
  be stated.
\<close>

record engine =
  risk :: risk_manager
  active_positions :: "string \<rightharpoonup> position_info"
  total_pnl :: real
  submitted :: "order list"







text \<open>
  \<^verbatim>\<open>_execute_signal\<close>. \<open>exposure\<close> is the outcome of \<^verbatim>\<open>client.get_positions\<close> and of the
  \<^verbatim>\<open>sum\<close> over the positions it returns: the exception raised, or the number bound to
  \<^verbatim>\<open>current_exposure\<close>. That number is taken as given, because it depends on whether the
  broker's JSON carries ints or floats and on the interpreter's float summation (compensated
  since Python 3.12). \<open>placed\<close> is the outcome of \<^verbatim>\<open>client.place_order\<close>, \<open>now\<close> the wall
  clock. The position size is computed without a \<^verbatim>\<open>win_rate\<close> argument, which is then
  \<^verbatim>\<open>None\<close>.
\<close>

definition execute_signal ::
  "risk_config \<Rightarrow> trading_mode \<Rightarrow> datetime \<Rightarrow> signal \<Rightarrow> real \<Rightarrow> real option
     \<Rightarrow> py_error + real \<Rightarrow> py_error + string \<Rightarrow> engine \<Rightarrow> engine" where
  "execute_signal cfg mode now sig account_value atr exposure placed e =
     (let symbol = sig_symbol sig
      in case exposure of
           Inl err \<Rightarrow> e
         | Inr current_exposure \<Rightarrow>
             (case calculate_position_size cfg symbol (sig_entry_price sig)
                        (sig_stop_loss sig) account_value current_exposure None of
                   Inl err \<Rightarrow> e
                 | Inr position_size \<Rightarrow>
                     if position_size = 0 then e
                     else if mode = PAPER
                     then e\<lparr>active_positions := (active_positions e)(symbol \<mapsto>
                            \<lparr>pos_order_id = None,
                             pos_quantity = (if sig_direction sig = ''LONG''
                                             then position_size else - position_size),
                             pos_entry_price = sig_entry_price sig,
                             pos_stop_loss = Some (sig_stop_loss sig),
                             pos_take_profit = Some (sig_take_profit sig),
                             pos_strategy = sig_strategy_name sig,
                             pos_entry_time = now,
                             pos_stop_order_id = None\<rparr>)\<rparr>
                     else (let order = Bracket_order symbol position_size (sig_entry_price sig)
                                         (sig_stop_loss sig) (sig_take_profit sig)
                                         (sig_direction sig = ''LONG'')
                           in case placed of
                                Inl err \<Rightarrow> e
                              | Inr order_id \<Rightarrow>
                                  e\<lparr>submitted := submitted e @ [order],
                                     active_positions := (active_positions e)(symbol \<mapsto>
                                       \<lparr>pos_order_id = Some order_id,
                                        pos_quantity = (if sig_direction sig = ''LONG''
                                                        then position_size else - position_size),
                                        pos_entry_price = sig_entry_price sig,
                                        pos_stop_loss = Some (sig_stop_loss sig),
                                        pos_take_profit = Some (sig_take_profit sig),
                                        pos_strategy = sig_strategy_name sig,
                                        pos_entry_time = now,
                                        pos_stop_order_id = None\<rparr>)\<rparr>)))"

subsection \<open>Concrete inputs\<close>

definition example_day :: datetime where
  "example_day = \<lparr>ordinal = 739000, hour = 10, minute = 30, second = 0, microsecond = 0\<rparr>"

definition state_with_pnl :: "real \<Rightarrow> risk_manager" where
  "state_with_pnl p = (init_risk_manager example_day)\<lparr>daily_pnl := p\<rparr>"

definition next_day :: datetime where
  "next_day = \<lparr>ordinal = 739001, hour = 0, minute = 0, second = 5, microsecond = 0\<rparr>"

definition martingale_config :: risk_config where
  "martingale_config = default_risk_config\<lparr>enable_martingale := True\<rparr>"

definition state_with_losses :: "int \<Rightarrow> risk_manager" where
  "state_with_losses c =
     (init_risk_manager example_day)\<lparr>consecutive_losses := [''SPY'' \<mapsto> c]\<rparr>"




text \<open>
  The defaults of the position-sizing and trailing-stop settings as the doubles that
  their literals denote.
\<close>

definition double_risk_config :: risk_config where
  "double_risk_config = default_risk_config\<lparr>
     max_position_size_pct := dbl 0.10,
     max_total_exposure_pct := dbl 0.50,
     trailing_stop_activation_pct := dbl 0.015,
     trailing_stop_distance_pct := dbl 0.01 \<rparr>"

definition long_calls :: "trailing_call list" where
  "long_calls =
     [\<lparr>call_symbol = ''SPY'', call_current_price = dbl 97.97979797979798,
        call_entry_price = 90, call_is_long = True\<rparr>,
      \<lparr>call_symbol = ''QQQ'', call_current_price = 80, call_entry_price = 100,
        call_is_long = False\<rparr>,
      \<lparr>call_symbol = ''SPY'', call_current_price = 100, call_entry_price = 90,
        call_is_long = True\<rparr>]"

definition short_calls :: "trailing_call list" where
  "short_calls =
     [\<lparr>call_symbol = ''SPY'', call_current_price = 100, call_entry_price = 110,
        call_is_long = False\<rparr>,
      \<lparr>call_symbol = ''SPY'', call_current_price = 105, call_entry_price = 110,
        call_is_long = False\<rparr>]"

definition state_with_stop :: "xfloat \<Rightarrow> risk_manager" where
  "state_with_stop v = (init_risk_manager example_day)\<lparr>trailing_stops := [''SPY'' \<mapsto> v]\<rparr>"

text \<open>A long signal at entry 50, stop 49, target 52.\<close>

definition long_signal :: signal where
  "long_signal = \<lparr>sig_symbol = ''SPY'', sig_direction = ''LONG'', sig_strength = dbl 0.8,
     sig_entry_price = 50, sig_stop_loss = 49, sig_take_profit = 52,
     sig_strategy_name = ''MomentumScalper'', sig_timestamp = example_day\<rparr>"

definition empty_engine :: engine where
  "empty_engine = \<lparr>risk = init_risk_manager example_day, active_positions = Map.empty,
     total_pnl = 0, submitted = []\<rparr>"

section \<open>Properties\<close>

subsection \<open>Rounding to binary64\<close>

lemmas double_eval = to_double_def ilog2_def round_half_even_def Let_def power_int_def
  compute_bitlen power_divide

lemma xfloat_less_Fin [simp]: "(Fin a < Fin b) = (a < b)"
  by (auto simp add: less_xfloat_def)

lemma xfloat_less_simps [simp]:
  "Fin a < PInf" "NInf < Fin a" "NInf < PInf" "\<not> PInf < x" "\<not> x < NInf"
  by (cases x; simp add: less_xfloat_def)+

lemma round_half_even_ge: "of_int n \<le> x \<Longrightarrow> n \<le> round_half_even x"
proof -
  assume "of_int n \<le> x"
  then have "n \<le> \<lfloor>x\<rfloor>" by (simp add: le_floor_iff)
  then show ?thesis by (simp add: round_half_even_def Let_def)
qed

lemma to_double_nonneg:
  assumes "0 \<le> x" and "to_double x = Fin q"
  shows "0 \<le> q"
proof (cases "x = 0")
  case True
  with assms show ?thesis by (simp add: to_double_def)
next
  case False
  define ulp :: real where "ulp = power_int 2 (max (ilog2 \<bar>x\<bar>) (- 1022) - 52)"
  have u: "0 < ulp" by (simp add: ulp_def)
  have "of_int 0 \<le> \<bar>x\<bar> / ulp" using u by simp
  then have "0 \<le> round_half_even (\<bar>x\<bar> / ulp)" by (rule round_half_even_ge)
  then have y: "0 \<le> of_int (round_half_even (\<bar>x\<bar> / ulp)) * ulp" using u by simp
  from assms False have "q = sgn x * (of_int (round_half_even (\<bar>x\<bar> / ulp)) * ulp)"
    by (simp add: to_double_def Let_def ulp_def split: if_splits)
  with y assms(1) show ?thesis by (simp add: sgn_if)
qed

lemma ilog2_bounds:
  assumes "0 < x"
  shows "power_int 2 (ilog2 x) \<le> x \<and> x < power_int 2 (ilog2 x + 1)"
proof (cases "1 \<le> x")
  case True
  define n where "n = \<lfloor>x\<rfloor>"
  have n: "0 < n" using True by (simp add: n_def)
  have b: "1 \<le> bitlen n" using n by (simp add: bitlen_ge_iff_power)
  from bitlen_bounds [OF n] have l: "2 ^ nat (bitlen n - 1) \<le> n" and u: "n < 2 ^ nat (bitlen n)"
    by simp_all
  have "real_of_int (2 ^ nat (bitlen n - 1)) \<le> real_of_int n" using l by (simp only: of_int_le_iff)
  also have "\<dots> \<le> x" by (simp add: n_def)
  finally have lo: "power_int 2 (bitlen n - 1) \<le> x"
    using b by (simp add: power_int_def)
  have "n + 1 \<le> 2 ^ nat (bitlen n)" using u by simp
  then have "real_of_int (n + 1) \<le> real_of_int (2 ^ nat (bitlen n))" by (simp only: of_int_le_iff)
  moreover have "x < real_of_int (n + 1)" by (simp add: n_def)
  ultimately have hi: "x < power_int 2 (bitlen n - 1 + 1)"
    using b by (simp add: power_int_def)
  from lo hi True show ?thesis by (simp add: ilog2_def n_def)
next
  case False
  then have x1: "x < 1" by simp
  define c where "c = \<lceil>1 / x\<rceil>"
  define k where "k = bitlen (c - 1)"
  have inv: "1 < 1 / x" using assms x1 by simp
  then have "1 < c" by (simp add: c_def less_ceiling_iff)
  then have m: "0 < c - 1" by simp
  have k1: "1 \<le> k" using m by (simp add: k_def bitlen_ge_iff_power)
  from bitlen_bounds [OF m] have l: "2 ^ nat (k - 1) \<le> c - 1" and u: "c - 1 < 2 ^ nat k"
    by (simp_all add: k_def)
  have "real_of_int (c - 1) < 1 / x" by (simp add: c_def) linarith
  moreover have "real_of_int (2 ^ nat (k - 1)) \<le> real_of_int (c - 1)"
    using l by (simp only: of_int_le_iff)
  then have "2 ^ nat (k - 1) \<le> real_of_int (c - 1)" by simp
  ultimately have a: "2 ^ nat (k - 1) < 1 / x" by linarith
  have "c \<le> 2 ^ nat k" using u by simp
  then have "real_of_int c \<le> real_of_int (2 ^ nat k)" by (simp only: of_int_le_iff)
  then have "real_of_int c \<le> 2 ^ nat k" by simp
  moreover have "1 / x \<le> real_of_int c" by (simp add: c_def)
  ultimately have b: "1 / x \<le> 2 ^ nat k" by linarith
  from b assms have lo: "1 / 2 ^ nat k \<le> x"
    by (simp add: field_simps)
  from a assms have hi: "x < 1 / 2 ^ nat (k - 1)"
    by (simp add: field_simps)
  have p1: "power_int (2::real) (- k) = 1 / 2 ^ nat k"
    using k1 by (simp add: power_int_def field_simps)
  have p2: "power_int (2::real) (- k + 1) = 1 / 2 ^ nat (k - 1)"
  proof (cases "k = 1")
    case True
    then show ?thesis by (simp add: power_int_def)
  next
    case False
    with k1 have "nat (- (- k + 1)) = nat (k - 1)" "\<not> 0 \<le> - k + 1" by simp_all
    then show ?thesis by (simp add: power_int_def field_simps)
  qed
  from lo hi x1 show ?thesis
    unfolding ilog2_def c_def [symmetric] k_def [symmetric] p1 [symmetric] p2 [symmetric]
    by (simp add: c_def [symmetric] k_def [symmetric])
qed

text \<open>A real of magnitude \<open>2 ^ 1024\<close> or more rounds to an infinity.\<close>

lemma to_double_overflow:
  assumes "power_int 2 1024 \<le> \<bar>x\<bar>"
  shows "to_double x = (if 0 < x then PInf else NInf)"
proof -
  have pos: "0 < \<bar>x\<bar>"
  proof -
    have "(0::real) < power_int 2 1024" by simp
    with assms show ?thesis by linarith
  qed
  then have nz: "x \<noteq> 0" by simp
  define i where "i = ilog2 \<bar>x\<bar>"
  from ilog2_bounds [OF pos] have lo: "power_int 2 i \<le> \<bar>x\<bar>" and hi: "\<bar>x\<bar> < power_int 2 (i + 1)"
    by (simp_all add: i_def)
  from assms hi have "power_int (2::real) 1024 < power_int 2 (i + 1)" by linarith
  then have "\<not> i + 1 \<le> 1024"
    using power_int_increasing [of "i + 1" 1024 "2::real"] by auto
  then have i: "1024 \<le> i" by simp
  define ulp :: real where "ulp = power_int 2 (i - 52)"
  have u: "0 < ulp" by (simp add: ulp_def)
  have split: "power_int (2::real) i = power_int 2 52 * ulp"
    unfolding ulp_def using power_int_add [of "2::real" 52 "i - 52"] by simp
  have "of_int (2 ^ 52) * ulp \<le> \<bar>x\<bar>" using lo split by simp
  then have "of_int (2 ^ 52) \<le> \<bar>x\<bar> / ulp" using u by (simp add: field_simps)
  then have "2 ^ 52 \<le> round_half_even (\<bar>x\<bar> / ulp)" by (rule round_half_even_ge)
  then have "real_of_int (2 ^ 52) \<le> real_of_int (round_half_even (\<bar>x\<bar> / ulp))"
    by (simp only: of_int_le_iff)
  then have "real_of_int (2 ^ 52) * ulp \<le> real_of_int (round_half_even (\<bar>x\<bar> / ulp)) * ulp"
    using u by (simp only: mult_le_cancel_right_pos)
  then have "power_int 2 i \<le> real_of_int (round_half_even (\<bar>x\<bar> / ulp)) * ulp"
    using split by simp
  moreover have "power_int (2::real) 1024 \<le> power_int 2 i"
    using i by (intro power_int_increasing) simp_all
  ultimately have y: "power_int 2 1024 \<le> real_of_int (round_half_even (\<bar>x\<bar> / ulp)) * ulp"
    by linarith
  have e: "max (ilog2 \<bar>x\<bar>) (- 1022) = i" using i by (simp add: i_def)
  show ?thesis
    unfolding to_double_def Let_def e ulp_def [symmetric] using nz y by simp
qed

lemma dbl_0_10: "dbl 0.10 = 3602879701896397 / 36028797018963968"
  by (simp add: dbl_def double_eval)

lemma dbl_0_50: "dbl 0.50 = 1 / 2"
  by (simp add: dbl_def double_eval)

lemma dbl_0_015: "dbl 0.015 = 1080863910568919 / 72057594037927936"
  by (simp add: dbl_def double_eval)

lemma dbl_0_01: "dbl 0.01 = 5764607523034235 / 576460752303423488"
  by (simp add: dbl_def double_eval)

lemma double_risk_config_fields:
  "max_position_size_pct double_risk_config = dbl 0.10"
  "max_total_exposure_pct double_risk_config = dbl 0.50"
  "trailing_stop_activation_pct double_risk_config = dbl 0.015"
  "trailing_stop_distance_pct double_risk_config = dbl 0.01"
  "trailing_stop_enabled double_risk_config"
  "position_sizing_method double_risk_config = ''kelly_criterion''"
  by (simp_all add: double_risk_config_def default_risk_config_def)

subsection \<open>The daily loss gate\<close>

text \<open>
  Claim C1, as amended. With \<^verbatim>\<open>max_daily_loss_pct = 0.05\<close>, an account value of 10,000 and
  the daily trade count below \<^verbatim>\<open>max_daily_trades\<close>, \<^verbatim>\<open>can_trade\<close> refuses if and only if
  the daily PnL is strictly below \<open>-500\<close>, and otherwise returns \<open>(True, OK)\<close>. The PnL
  and the count are the ones in effect after the lazy daily reset that \<^verbatim>\<open>can_trade\<close>
  performs first (the stored ones when the date has not advanced); the state returned is
  that reset state.
\<close>

theorem can_trade_daily_loss_limit:
  assumes "max_daily_loss_pct cfg = 0.05"
    and "daily_trades (reset_daily_stats now s) < max_daily_trades cfg"
  shows "((\<exists>r. fst (can_trade cfg now 10000 s) = (False, r))
            \<longleftrightarrow> daily_pnl (reset_daily_stats now s) < - 500)
       \<and> (\<not> daily_pnl (reset_daily_stats now s) < - 500
            \<longrightarrow> fst (can_trade cfg now 10000 s) = (True, OK))
       \<and> snd (can_trade cfg now 10000 s) = reset_daily_stats now s"
  using assms by (simp add: can_trade_def Let_def)

theorem can_trade_daily_loss_limit_witness:
  "max_daily_loss_pct default_risk_config = 0.05
   \<and> daily_trades (reset_daily_stats example_day (state_with_pnl (- 501)))
        < max_daily_trades default_risk_config
   \<and> (\<exists>r. fst (can_trade default_risk_config example_day 10000 (state_with_pnl (- 501)))
          = (False, r))
   \<and> fst (can_trade default_risk_config example_day 10000 (state_with_pnl (- 499))) = (True, OK)"
proof -
  have c: "max_daily_loss_pct default_risk_config = 0.05"
    by (simp add: default_risk_config_def)
  have r: "reset_daily_stats example_day (state_with_pnl p) = state_with_pnl p" for p
    by (simp add: reset_daily_stats_def state_with_pnl_def init_risk_manager_def date_def
        replace_hms0_def)
  have t: "daily_trades (reset_daily_stats example_day (state_with_pnl p))
             < max_daily_trades default_risk_config" for p
    unfolding r by (simp add: state_with_pnl_def init_risk_manager_def default_risk_config_def)
  have p1: "daily_pnl (reset_daily_stats example_day (state_with_pnl (- 501))) < - 500"
    unfolding r by (simp add: state_with_pnl_def)
  have p2: "\<not> daily_pnl (reset_daily_stats example_day (state_with_pnl (- 499))) < - 500"
    unfolding r by (simp add: state_with_pnl_def)
  from can_trade_daily_loss_limit [OF c t, of "- 501"]
       can_trade_daily_loss_limit [OF c t, of "- 499"] c t p1 p2
  show ?thesis by blast
qed

text \<open>
  At a recorded daily PnL of exactly \<open>-500\<close>, which is \<open>\<le> -500\<close>, with no trade made
  that day, \<^verbatim>\<open>can_trade(10000)\<close> still allows trading.
\<close>

theorem can_trade_boundary_counterexample:
  "daily_trades (state_with_pnl (- 500)) < max_daily_trades default_risk_config
   \<and> daily_pnl (state_with_pnl (- 500)) \<le> - 500
   \<and> fst (can_trade default_risk_config example_day 10000 (state_with_pnl (- 500))) = (True, OK)"
  by (simp add: can_trade_def reset_daily_stats_def state_with_pnl_def init_risk_manager_def
      default_risk_config_def example_day_def date_def replace_hms0_def)

subsection \<open>The daily reset\<close>

text \<open>
  Claim C9. \<^verbatim>\<open>reset_daily_stats\<close> zeroes the daily PnL and the trade count and moves the
  boundary to the current day when the current date is strictly later than the stored
  boundary date, and changes nothing otherwise. After a call at \<open>now\<close>, a call on the
  same or an earlier date changes nothing, also after trades have been recorded in
  between; and the boundary date never moves back.
\<close>

theorem reset_daily_stats_day_boundary:
  "(date (daily_reset_time s) < date now \<longrightarrow>
       daily_pnl (reset_daily_stats now s) = 0
     \<and> daily_trades (reset_daily_stats now s) = 0
     \<and> date (daily_reset_time (reset_daily_stats now s)) = date now)
   \<and> (\<not> date (daily_reset_time s) < date now \<longrightarrow> reset_daily_stats now s = s)
   \<and> (date now' \<le> date now \<longrightarrow>
        reset_daily_stats now' (record_trade pnl (reset_daily_stats now s))
          = record_trade pnl (reset_daily_stats now s))
   \<and> date (daily_reset_time (reset_daily_stats now s))
        = max (date now) (date (daily_reset_time s))"
  by (simp add: reset_daily_stats_def record_trade_def date_def replace_hms0_def)

theorem reset_daily_stats_day_boundary_witness:
  "date (daily_reset_time (state_with_pnl (- 100))) < date next_day
   \<and> daily_pnl (reset_daily_stats next_day (state_with_pnl (- 100))) = 0
   \<and> daily_trades (reset_daily_stats next_day (state_with_pnl (- 100))) = 0
   \<and> \<not> date (daily_reset_time (state_with_pnl (- 100))) < date example_day
   \<and> reset_daily_stats example_day (state_with_pnl (- 100)) = state_with_pnl (- 100)
   \<and> date next_day \<le> date next_day
   \<and> reset_daily_stats next_day (record_trade 40 (reset_daily_stats next_day (state_with_pnl (- 100))))
       = record_trade 40 (reset_daily_stats next_day (state_with_pnl (- 100)))"
proof -
  have a: "date (daily_reset_time (state_with_pnl (- 100))) < date next_day"
    by (simp add: state_with_pnl_def init_risk_manager_def date_def replace_hms0_def
        example_day_def next_day_def)
  have b: "\<not> date (daily_reset_time (state_with_pnl (- 100))) < date example_day"
    by (simp add: state_with_pnl_def init_risk_manager_def date_def replace_hms0_def)
  have c: "date next_day \<le> date next_day" by simp
  from reset_daily_stats_day_boundary [of "state_with_pnl (- 100)" next_day next_day 40]
       reset_daily_stats_day_boundary [of "state_with_pnl (- 100)" example_day example_day 40]
       a b c
  show ?thesis by blast
qed

subsection \<open>Position sizing\<close>

lemma fixed_fractional_size_method:
  "fixed_fractional_size (cfg\<lparr>position_sizing_method := m\<rparr>) entry_price stop_loss_price
       account_value current_positions_value
     = fixed_fractional_size cfg entry_price stop_loss_price account_value current_positions_value"
  by (simp add: fixed_fractional_size_def)

lemma size_of_quotient:
  assumes "0 < entry_price" and "\<not> capital \<le> Fin 0"
  shows "(case xdiv capital entry_price of
            Fin q \<Rightarrow> Inr (max 0 (py_int q))
          | PInf \<Rightarrow> Inl OverflowError
          | NInf \<Rightarrow> Inl OverflowError)
         = (case xdiv capital entry_price of
              Fin q \<Rightarrow> Inr \<lfloor>q\<rfloor>
            | PInf \<Rightarrow> Inl OverflowError
            | NInf \<Rightarrow> (Inl OverflowError :: py_error + int))"
proof (cases "xdiv capital entry_price")
  case (Fin q)
  have "0 \<le> q"
  proof (cases capital)
    case (Fin a)
    with assms(2) have "0 < a" by simp
    with assms(1) have "0 \<le> a / entry_price" by simp
    moreover from \<open>xdiv capital entry_price = Fin q\<close> Fin
    have "to_double (a / entry_price) = Fin q" by simp
    ultimately show ?thesis by (rule to_double_nonneg)
  next
    case PInf
    with \<open>xdiv capital entry_price = Fin q\<close> assms(1) show ?thesis by simp
  next
    case NInf
    with assms(2) show ?thesis by simp
  qed
  then show ?thesis using Fin by (simp add: py_int_def)
next
  case PInf
  then show ?thesis by simp
next
  case NInf
  then show ?thesis by simp
qed

lemma dbl_7_12: "dbl 7.12 = 8016407336719483 / 1125899906842624"
  by (simp add: dbl_def double_eval)

lemma dbl_168316_8: "dbl 168316.8 = 2891660605469491 / 17179869184"
  by (simp add: dbl_def double_eval)

lemma fixed_fractional_size_at_7_12:
  "fixed_fractional_size double_risk_config (dbl 7.12) 0 (dbl 168316.8) 0 = Inr 2364"
  unfolding fixed_fractional_size_def double_risk_config_def default_risk_config_def
    fmul_def fsub_def dbl_7_12 dbl_168316_8 dbl_0_10 dbl_0_50
  by (simp add: double_eval py_int_def)

text \<open>The quotient of the same doubles in exact arithmetic lies just below 2364.\<close>

lemma exact_quotient_at_7_12:
  "\<lfloor>min (dbl 168316.8 * dbl 0.10) (dbl 168316.8 * dbl 0.50 - 0) / dbl 7.12\<rfloor> = (2363::int)"
  unfolding dbl_7_12 dbl_168316_8 dbl_0_10 dbl_0_50 by simp

lemma fixed_fractional_size_at_50:
  "fixed_fractional_size double_risk_config 50 49 10000 0 = Inr 20"
  unfolding fixed_fractional_size_def Let_def double_risk_config_fields fmul_def fsub_def
    dbl_0_10 dbl_0_50
  by (simp add: double_eval py_int_def)

text \<open>
  Claim C5, as amended. Every operation is the double-precision one. For an entry price
  above zero, fixed-fractional sizing computes the capital
  \<open>min (account_value * max_position_size_pct)
  (account_value * max_total_exposure_pct - current_positions_value)\<close>; it returns 0 when
  the capital is not positive, and otherwise the floor of the quotient of the capital by
  the entry price when that quotient is finite, and raises \<^verbatim>\<open>OverflowError\<close> when the
  quotient overflows. The stop-loss price does not change the result. At entry 50,
  account value 10,000, \<^verbatim>\<open>max_position_size_pct = 0.10\<close> and no current exposure the
  quantity is 20 (the exposure cap leaving at least 1000, as in every shipped profile).
\<close>

theorem fixed_fractional_size_formula:
  assumes "0 < entry_price"
  shows "fixed_fractional_size cfg entry_price stop_loss_price account_value current_positions_value
           = (if min (fmul account_value (max_position_size_pct cfg))
                     (xsub (fmul account_value (max_total_exposure_pct cfg))
                        current_positions_value) \<le> Fin 0
              then Inr 0
              else case xdiv (min (fmul account_value (max_position_size_pct cfg))
                                  (xsub (fmul account_value (max_total_exposure_pct cfg))
                                     current_positions_value)) entry_price of
                     Fin q \<Rightarrow> Inr \<lfloor>q\<rfloor>
                   | PInf \<Rightarrow> Inl OverflowError
                   | NInf \<Rightarrow> Inl OverflowError)
       \<and> fixed_fractional_size cfg entry_price stop_loss_price' account_value current_positions_value
           = fixed_fractional_size cfg entry_price stop_loss_price account_value current_positions_value
       \<and> (max_position_size_pct cfg = dbl 0.10
            \<and> Fin 1000 \<le> xsub (fmul 10000 (max_total_exposure_pct cfg)) 0 \<longrightarrow>
            fixed_fractional_size cfg 50 stop_loss_price 10000 0 = Inr 20)"
proof (intro conjI impI)
  define capital where "capital = min (fmul account_value (max_position_size_pct cfg))
                     (xsub (fmul account_value (max_total_exposure_pct cfg))
                        current_positions_value)"
  show "fixed_fractional_size cfg entry_price stop_loss_price account_value current_positions_value
           = (if min (fmul account_value (max_position_size_pct cfg))
                     (xsub (fmul account_value (max_total_exposure_pct cfg))
                        current_positions_value) \<le> Fin 0
              then Inr 0
              else case xdiv (min (fmul account_value (max_position_size_pct cfg))
                                  (xsub (fmul account_value (max_total_exposure_pct cfg))
                                     current_positions_value)) entry_price of
                     Fin q \<Rightarrow> Inr \<lfloor>q\<rfloor>
                   | PInf \<Rightarrow> Inl OverflowError
                   | NInf \<Rightarrow> Inl OverflowError)"
    unfolding fixed_fractional_size_def Let_def capital_def [symmetric]
    using assms size_of_quotient [OF assms, of capital] by simp
  show "fixed_fractional_size cfg entry_price stop_loss_price' account_value current_positions_value
           = fixed_fractional_size cfg entry_price stop_loss_price account_value current_positions_value"
    by (simp add: fixed_fractional_size_def Let_def)
next
  assume a: "max_position_size_pct cfg = dbl 0.10
            \<and> Fin 1000 \<le> xsub (fmul 10000 (max_total_exposure_pct cfg)) 0"
  have "fmul 10000 (dbl 0.10) = Fin 1000"
    unfolding fmul_def dbl_0_10 by (simp add: double_eval)
  with a have m: "fmul 10000 (max_position_size_pct cfg) = Fin 1000"
    by simp
  have c: "min (Fin 1000) (xsub (fmul 10000 (max_total_exposure_pct cfg)) 0) = Fin 1000"
    using a by (simp add: min_def)
  have q: "xdiv (Fin 1000) 50 = Fin 20"
    by (simp add: double_eval)
  show "fixed_fractional_size cfg 50 stop_loss_price 10000 0 = Inr 20"
    unfolding fixed_fractional_size_def Let_def m c q by (simp add: py_int_def)
qed

theorem fixed_fractional_size_formula_witness:
  "(0::real) < 50
   \<and> max_position_size_pct double_risk_config = dbl 0.10
   \<and> Fin 1000 \<le> xsub (fmul 10000 (max_total_exposure_pct double_risk_config)) 0
   \<and> fixed_fractional_size double_risk_config 50 49 10000 0 = Inr 20
   \<and> fixed_fractional_size double_risk_config 50 45 10000 0 = Inr 20
   \<and> fixed_fractional_size double_risk_config 50 45 10000 0
       = fixed_fractional_size double_risk_config 50 49 10000 0
   \<and> fixed_fractional_size double_risk_config (dbl 7.12) 0 (dbl 168316.8) 0 = Inr 2364"
proof -
  have h: "(0::real) < 50" by simp
  have c: "max_position_size_pct double_risk_config = dbl 0.10"
    by (simp add: double_risk_config_def)
  have r: "Fin 1000 \<le> xsub (fmul 10000 (max_total_exposure_pct double_risk_config)) 0"
    unfolding double_risk_config_def fmul_def dbl_0_50 by (simp add: double_eval)
  from fixed_fractional_size_formula [OF h, of double_risk_config 49 10000 0 45]
       fixed_fractional_size_formula [OF h, of double_risk_config 45 10000 0 49] h c r
       fixed_fractional_size_at_7_12
  show ?thesis by blast
qed

text \<open>
  At the entry price \<open>2 ^ -1015\<close>, a positive double, the quotient \<open>1000 / entry_price\<close>
  overflows and the call raises \<^verbatim>\<open>OverflowError\<close>: no quantity is returned. At entry 7.12
  and account value 168316.8 the call returns 2364, the floor of the double quotient,
  where the floor of the exact quotient of the same doubles is 2363.
\<close>

theorem fixed_fractional_size_overflow_counterexample:
  "(0::real) < 1 / 2 ^ 1015
   \<and> fixed_fractional_size double_risk_config (1 / 2 ^ 1015) 0 10000 0 = Inl OverflowError
   \<and> (0::real) < dbl 7.12
   \<and> fixed_fractional_size double_risk_config (dbl 7.12) 0 (dbl 168316.8) 0 = Inr 2364
   \<and> \<lfloor>min (dbl 168316.8 * dbl 0.10) (dbl 168316.8 * dbl 0.50 - 0) / dbl 7.12\<rfloor> = (2363::int)"
proof -
  have m: "fmul 10000 (dbl 0.10) = Fin 1000"
    unfolding fmul_def dbl_0_10 by (simp add: double_eval)
  have r: "xsub (fmul 10000 (dbl 0.50)) 0 = Fin 5000"
    unfolding fmul_def dbl_0_50 by (simp add: double_eval)
  have "power_int 2 1024 \<le> \<bar>1000 / (1 / 2 ^ 1015 :: real)\<bar>" by simp
  from to_double_overflow [OF this] have q: "xdiv (Fin 1000) (1 / 2 ^ 1015) = PInf"
    by simp
  have c1: "max_position_size_pct double_risk_config = dbl 0.10"
    and c2: "max_total_exposure_pct double_risk_config = dbl 0.50"
    by (simp_all add: double_risk_config_def)
  have k: "min (Fin 1000) (Fin 5000) = Fin 1000" by (simp add: min_def)
  have "fixed_fractional_size double_risk_config (1 / 2 ^ 1015) 0 10000 0 = Inl OverflowError"
    unfolding fixed_fractional_size_def Let_def c1 c2 m r k q by simp
  moreover have "(0::real) < dbl 7.12" unfolding dbl_7_12 by simp
  ultimately show ?thesis
    using fixed_fractional_size_at_7_12 exact_quotient_at_7_12 by simp
qed

lemma dbl_0_6: "dbl 0.6 = 5404319552844595 / 9007199254740992"
  by (simp add: dbl_def double_eval)

lemma dbl_0_438: "dbl 0.438 = 7890306547153109 / 18014398509481984"
  by (simp add: dbl_def double_eval)

lemma kelly_raw_0_6:
  "rsubx (dbl 0.6) (xdiv (fsub 1 (dbl 0.6)) 2.0) = Fin (7205759403792793 / 18014398509481984)"
  unfolding fsub_def dbl_0_6 by (simp add: double_eval)

lemma kelly_half_0_6:
  "fmul (7205759403792793 / 18014398509481984) 0.5 = Fin (7205759403792793 / 36028797018963968)"
  unfolding fmul_def by (simp add: double_eval)

lemma kelly_raw_0_438:
  "rsubx (dbl 0.438) (xdiv (fsub 1 (dbl 0.438)) 2.0) = Fin (2828260565988671 / 18014398509481984)"
  unfolding fsub_def dbl_0_438 by (simp add: double_eval)

lemma kelly_half_0_438:
  "fmul (2828260565988671 / 18014398509481984) 0.5 = Fin (2828260565988671 / 36028797018963968)"
  unfolding fmul_def by (simp add: double_eval)

lemma kelly_pct_finite:
  assumes "rsubx win_rate (xdiv (fsub 1 win_rate) 2.0) = Fin k" and "fmul k 0.5 = Fin h"
  shows "kelly_pct cfg win_rate = min (max 0 h) (max_position_size_pct cfg)"
  unfolding kelly_pct_def Let_def assms(1) xfloat.case assms(2) ..

lemma kelly_pct_bounds:
  "kelly_pct cfg win_rate \<le> max_position_size_pct cfg
   \<and> (0 \<le> max_position_size_pct cfg \<longrightarrow> 0 \<le> kelly_pct cfg win_rate)"
  by (simp add: kelly_pct_def Let_def split: xfloat.split)

lemma fixed_fractional_size_at_0_0785:
  "fixed_fractional_size
     (double_risk_config\<lparr>max_position_size_pct := 2828260565988671 / 36028797018963968\<rparr>)
     5 0 10000 0 = Inr 156"
proof -
  have c1: "max_position_size_pct
              (double_risk_config\<lparr>max_position_size_pct := 2828260565988671 / 36028797018963968\<rparr>)
            = 2828260565988671 / 36028797018963968"
    by simp
  have c2: "max_total_exposure_pct
              (double_risk_config\<lparr>max_position_size_pct := 2828260565988671 / 36028797018963968\<rparr>)
            = dbl 0.50"
    by (simp add: double_risk_config_def)
  show ?thesis
    unfolding fixed_fractional_size_def Let_def c1 c2 fmul_def fsub_def dbl_0_50
    by (simp add: double_eval py_int_def)
qed

text \<open>
  Claim C6. Every operation is the double-precision one. Kelly sizing uses the fraction
  \<open>min (max 0 ((win_rate - (1 - win_rate) / 2.0) * 0.5)) max_position_size_pct\<close> of the
  account, which is never above \<^verbatim>\<open>max_position_size_pct\<close> and never below 0 for a cap that
  is not negative; it then does exactly what fixed-fractional sizing does with that
  fraction as the position cap. \<^verbatim>\<open>calculate_position_size\<close> takes this path under
  \<^verbatim>\<open>"kelly_criterion"\<close> with a non-zero win rate. At win rate 0.6 and
  \<^verbatim>\<open>max_position_size_pct = 0.10\<close> the fraction is 0.10.
\<close>

theorem kelly_criterion_size_formula:
  "(rsubx win_rate (xdiv (fsub 1 win_rate) 2.0) = Fin k \<and> fmul k 0.5 = Fin h \<longrightarrow>
      kelly_pct cfg win_rate = min (max 0 h) (max_position_size_pct cfg))
   \<and> kelly_pct cfg win_rate \<le> max_position_size_pct cfg
   \<and> (0 \<le> max_position_size_pct cfg \<longrightarrow> 0 \<le> kelly_pct cfg win_rate)
   \<and> kelly_criterion_size cfg entry_price stop_loss_price account_value
          current_positions_value win_rate
        = fixed_fractional_size (cfg\<lparr>max_position_size_pct := kelly_pct cfg win_rate\<rparr>)
            entry_price stop_loss_price account_value current_positions_value
   \<and> (position_sizing_method cfg = ''kelly_criterion'' \<and> win_rate \<noteq> 0 \<longrightarrow>
        calculate_position_size cfg symbol entry_price stop_loss_price account_value
            current_positions_value (Some win_rate)
          = kelly_criterion_size cfg entry_price stop_loss_price account_value
              current_positions_value win_rate)
   \<and> (max_position_size_pct cfg = dbl 0.10 \<longrightarrow> kelly_pct cfg (dbl 0.6) = dbl 0.10)"
proof (intro conjI impI)
  assume "rsubx win_rate (xdiv (fsub 1 win_rate) 2.0) = Fin k \<and> fmul k 0.5 = Fin h"
  then show "kelly_pct cfg win_rate = min (max 0 h) (max_position_size_pct cfg)"
    using kelly_pct_finite by blast
next
  show "kelly_pct cfg win_rate \<le> max_position_size_pct cfg"
    using kelly_pct_bounds by blast
next
  assume "0 \<le> max_position_size_pct cfg"
  then show "0 \<le> kelly_pct cfg win_rate"
    using kelly_pct_bounds by blast
next
  show "kelly_criterion_size cfg entry_price stop_loss_price account_value
          current_positions_value win_rate
        = fixed_fractional_size (cfg\<lparr>max_position_size_pct := kelly_pct cfg win_rate\<rparr>)
            entry_price stop_loss_price account_value current_positions_value"
    by (simp add: kelly_criterion_size_def fixed_fractional_size_def Let_def)
next
  assume "position_sizing_method cfg = ''kelly_criterion'' \<and> win_rate \<noteq> 0"
  then show "calculate_position_size cfg symbol entry_price stop_loss_price account_value
            current_positions_value (Some win_rate)
          = kelly_criterion_size cfg entry_price stop_loss_price account_value
              current_positions_value win_rate"
    by (simp add: calculate_position_size_def)
next
  assume m: "max_position_size_pct cfg = dbl 0.10"
  have "kelly_pct cfg (dbl 0.6)
          = min (max 0 (7205759403792793 / 36028797018963968)) (max_position_size_pct cfg)"
    by (rule kelly_pct_finite [OF kelly_raw_0_6 kelly_half_0_6])
  also have "\<dots> = dbl 0.10"
    unfolding m dbl_0_10 by simp
  finally show "kelly_pct cfg (dbl 0.6) = dbl 0.10" .
qed

theorem kelly_criterion_size_formula_witness:
  "rsubx (dbl 0.438) (xdiv (fsub 1 (dbl 0.438)) 2.0) = Fin (2828260565988671 / 18014398509481984)
   \<and> fmul (2828260565988671 / 18014398509481984) 0.5 = Fin (2828260565988671 / 36028797018963968)
   \<and> kelly_pct double_risk_config (dbl 0.438) = 2828260565988671 / 36028797018963968
   \<and> position_sizing_method double_risk_config = ''kelly_criterion''
   \<and> dbl 0.438 \<noteq> 0
   \<and> kelly_criterion_size double_risk_config 5 0 10000 0 (dbl 0.438) = Inr 156
   \<and> calculate_position_size double_risk_config ''SPY'' 5 0 10000 0 (Some (dbl 0.438)) = Inr 156
   \<and> max_position_size_pct double_risk_config = dbl 0.10
   \<and> kelly_pct double_risk_config (dbl 0.6) = dbl 0.10"
proof -
  note t = kelly_criterion_size_formula [where cfg = double_risk_config
      and win_rate = "dbl 0.438" and k = "2828260565988671 / 18014398509481984"
      and h = "2828260565988671 / 36028797018963968" and entry_price = 5
      and stop_loss_price = 0 and account_value = 10000 and current_positions_value = 0
      and symbol = "''SPY''"]
  have n: "dbl 0.438 \<noteq> 0" unfolding dbl_0_438 by simp
  from t kelly_raw_0_438 kelly_half_0_438
  have "kelly_pct double_risk_config (dbl 0.438)
          = min (max 0 (2828260565988671 / 36028797018963968))
              (max_position_size_pct double_risk_config)"
    by blast
  also have "\<dots> = 2828260565988671 / 36028797018963968"
    unfolding double_risk_config_fields dbl_0_10 by simp
  finally have p: "kelly_pct double_risk_config (dbl 0.438)
                     = 2828260565988671 / 36028797018963968" .
  from t have "kelly_criterion_size double_risk_config 5 0 10000 0 (dbl 0.438)
      = fixed_fractional_size
          (double_risk_config\<lparr>max_position_size_pct := kelly_pct double_risk_config (dbl 0.438)\<rparr>)
          5 0 10000 0"
    by blast
  then have s: "kelly_criterion_size double_risk_config 5 0 10000 0 (dbl 0.438) = Inr 156"
    unfolding p fixed_fractional_size_at_0_0785 .
  from t double_risk_config_fields(6) n
  have "calculate_position_size double_risk_config ''SPY'' 5 0 10000 0 (Some (dbl 0.438))
      = kelly_criterion_size double_risk_config 5 0 10000 0 (dbl 0.438)"
    by blast
  then have c: "calculate_position_size double_risk_config ''SPY'' 5 0 10000 0
      (Some (dbl 0.438)) = Inr 156"
    unfolding s .
  from t double_risk_config_fields(1)
  have e: "kelly_pct double_risk_config (dbl 0.6) = dbl 0.10"
    by blast
  from kelly_raw_0_438 kelly_half_0_438 p double_risk_config_fields(1,6) n s c e
  show ?thesis by blast
qed

text \<open>
  Claim C10. With \<^verbatim>\<open>position_sizing_method = "kelly_criterion"\<close> and a win rate that is
  \<^verbatim>\<open>None\<close> or zero, \<^verbatim>\<open>calculate_position_size\<close> returns what fixed-fractional sizing
  returns for the same arguments (the same quantity, or the same error). The engine's
  \<^verbatim>\<open>_execute_signal\<close> passes no win rate: under a Kelly configuration it does exactly
  what it does under a fixed-fractional configuration, the position it records and the
  bracket order it submits carry the quantity that \<^verbatim>\<open>_fixed_fractional_size\<close> returns
  for the signal's prices, the account value and the current exposure computed from the
  broker's positions, and when that quantity is 0 or the sizing raises, nothing is recorded
  or submitted.
\<close>

theorem kelly_without_win_rate_is_fixed_fractional:
  assumes "position_sizing_method cfg = ''kelly_criterion''"
  shows "(win_rate = None \<or> win_rate = Some 0 \<longrightarrow>
            calculate_position_size cfg symbol entry_price stop_loss_price account_value
                current_positions_value win_rate
              = fixed_fractional_size cfg entry_price stop_loss_price account_value
                  current_positions_value)
       \<and> execute_signal cfg mode now sig account_value atr exposure placed eng
           = execute_signal (cfg\<lparr>position_sizing_method := ''fixed_fractional''\<rparr>) mode now sig
               account_value atr exposure placed eng
       \<and> (exposure = Inr current_exposure
            \<and> fixed_fractional_size cfg (sig_entry_price sig) (sig_stop_loss sig) account_value
                 current_exposure
                = Inr n
            \<and> n \<noteq> 0 \<longrightarrow>
            (mode = PAPER \<longrightarrow>
               map_option pos_quantity
                 (active_positions
                    (execute_signal cfg mode now sig account_value atr exposure placed eng)
                    (sig_symbol sig))
                 = Some (if sig_direction sig = ''LONG'' then n else - n)
             \<and> submitted (execute_signal cfg mode now sig account_value atr exposure placed eng)
                 = submitted eng)
          \<and> (mode \<noteq> PAPER \<and> placed = Inr order_id \<longrightarrow>
               map_option pos_quantity
                 (active_positions
                    (execute_signal cfg mode now sig account_value atr exposure placed eng)
                    (sig_symbol sig))
                 = Some (if sig_direction sig = ''LONG'' then n else - n)
             \<and> submitted (execute_signal cfg mode now sig account_value atr exposure placed eng)
                 = submitted eng
                   @ [Bracket_order (sig_symbol sig) n (sig_entry_price sig) (sig_stop_loss sig)
                        (sig_take_profit sig) (sig_direction sig = ''LONG'')]))
       \<and> (exposure = Inr current_exposure
            \<and> (fixed_fractional_size cfg (sig_entry_price sig) (sig_stop_loss sig) account_value
                  current_exposure
                 = Inr 0
               \<or> fixed_fractional_size cfg (sig_entry_price sig) (sig_stop_loss sig) account_value
                    current_exposure
                   = Inl err) \<longrightarrow>
            execute_signal cfg mode now sig account_value atr exposure placed eng = eng)"
proof -
  have d: "calculate_position_size cfg sy en st av cpv None
          = fixed_fractional_size cfg en st av cpv" for sy en st av cpv
    using assms by (simp add: calculate_position_size_def)
  have d': "calculate_position_size cfg sy en st av cpv None
          = calculate_position_size (cfg\<lparr>position_sizing_method := ''fixed_fractional''\<rparr>)
              sy en st av cpv None" for sy en st av cpv
    using assms by (simp add: calculate_position_size_def fixed_fractional_size_method)
  have c1: "win_rate = None \<or> win_rate = Some 0 \<longrightarrow>
            calculate_position_size cfg symbol entry_price stop_loss_price account_value
                current_positions_value win_rate
              = fixed_fractional_size cfg entry_price stop_loss_price account_value
                  current_positions_value"
    using assms by (auto simp add: calculate_position_size_def)
  have c2: "execute_signal cfg mode now sig account_value atr exposure placed eng
           = execute_signal (cfg\<lparr>position_sizing_method := ''fixed_fractional''\<rparr>) mode now sig
               account_value atr exposure placed eng"
    using d' by (cases exposure) (simp_all add: execute_signal_def Let_def)
  show ?thesis
    using c1 c2
    by (cases placed) (auto simp add: execute_signal_def Let_def d)
qed

theorem kelly_without_win_rate_is_fixed_fractional_witness:
  "position_sizing_method double_risk_config = ''kelly_criterion''
   \<and> calculate_position_size double_risk_config ''SPY'' 50 49 10000 0 None
        = fixed_fractional_size double_risk_config 50 49 10000 0
   \<and> calculate_position_size double_risk_config ''SPY'' 50 49 10000 0 (Some 0) = Inr 20
   \<and> map_option pos_quantity
        (active_positions
           (execute_signal double_risk_config PAPER example_day long_signal 10000 None (Inr 0)
              (Inr ''1001'') empty_engine) ''SPY'') = Some 20
   \<and> submitted
        (execute_signal double_risk_config LIVE example_day long_signal 10000 None (Inr 0)
           (Inr ''1001'') empty_engine)
       = [Bracket_order ''SPY'' 20 50 49 52 True]"
proof -
  have k: "position_sizing_method double_risk_config = ''kelly_criterion''"
    by (rule double_risk_config_fields)
  have f: "fixed_fractional_size double_risk_config (sig_entry_price long_signal)
             (sig_stop_loss long_signal) 10000
             0
           = Inr 20"
    using fixed_fractional_size_at_50 by (simp add: long_signal_def)
  have n: "(20::int) \<noteq> 0" by simp
  have s: "sig_symbol long_signal = ''SPY''" "sig_direction long_signal = ''LONG''"
    "sig_entry_price long_signal = 50" "sig_stop_loss long_signal = 49"
    "sig_take_profit long_signal = 52" "submitted empty_engine = []"
    by (simp_all add: long_signal_def empty_engine_def)
  note p = kelly_without_win_rate_is_fixed_fractional [OF k, where win_rate = None
      and symbol = "''SPY''" and entry_price = 50 and stop_loss_price = 49
      and account_value = 10000 and current_positions_value = 0 and mode = PAPER
      and now = example_day and sig = long_signal and atr = None and exposure = "Inr 0"
      and placed = "Inr ''1001''" and eng = empty_engine and current_exposure = 0 and n = 20
      and order_id = "''1001''"]
  note l = kelly_without_win_rate_is_fixed_fractional [OF k, where win_rate = "Some 0"
      and symbol = "''SPY''" and entry_price = 50 and stop_loss_price = 49
      and account_value = 10000 and current_positions_value = 0 and mode = LIVE
      and now = example_day and sig = long_signal and atr = None and exposure = "Inr 0"
      and placed = "Inr ''1001''" and eng = empty_engine and current_exposure = 0 and n = 20
      and order_id = "''1001''"]
  from p have a1: "calculate_position_size double_risk_config ''SPY'' 50 49 10000 0 None
        = fixed_fractional_size double_risk_config 50 49 10000 0" by blast
  from l have "calculate_position_size double_risk_config ''SPY'' 50 49 10000 0 (Some 0)
        = fixed_fractional_size double_risk_config 50 49 10000 0" by blast
  then have a2: "calculate_position_size double_risk_config ''SPY'' 50 49 10000 0 (Some 0)
        = Inr 20" unfolding fixed_fractional_size_at_50 .
  from p f n have "map_option pos_quantity
        (active_positions
           (execute_signal double_risk_config PAPER example_day long_signal 10000 None (Inr 0)
              (Inr ''1001'') empty_engine) (sig_symbol long_signal))
        = Some (if sig_direction long_signal = ''LONG'' then 20 else - 20)" by blast
  then have a3: "map_option pos_quantity
        (active_positions
           (execute_signal double_risk_config PAPER example_day long_signal 10000 None (Inr 0)
              (Inr ''1001'') empty_engine) ''SPY'') = Some 20"
    by (simp add: s)
  have m: "LIVE \<noteq> PAPER" by simp
  from l f n m have "submitted
        (execute_signal double_risk_config LIVE example_day long_signal 10000 None (Inr 0)
           (Inr ''1001'') empty_engine)
       = submitted empty_engine
         @ [Bracket_order (sig_symbol long_signal) 20 (sig_entry_price long_signal)
              (sig_stop_loss long_signal) (sig_take_profit long_signal)
              (sig_direction long_signal = ''LONG'')]" by blast
  then have a4: "submitted
        (execute_signal double_risk_config LIVE example_day long_signal 10000 None (Inr 0)
           (Inr ''1001'') empty_engine)
       = [Bracket_order ''SPY'' 20 50 49 52 True]"
    by (simp add: s)
  from k a1 a2 a3 a4 show ?thesis by blast
qed

subsection \<open>Stop-loss price\<close>




subsection \<open>Martingale sizing\<close>

text \<open>
  Claim C7. With \<^verbatim>\<open>enable_martingale\<close> false, \<^verbatim>\<open>apply_martingale\<close> returns \<^verbatim>\<open>base_size\<close>
  and changes nothing. When enabled, a loss increments the symbol's consecutive-loss
  counter and a win resets it to 0, and the returned size is
  \<open>base_size * 2 ^ min counter martingale_max_doublings\<close> for the updated counter. With
  \<^verbatim>\<open>martingale_max_doublings = 2\<close>, the counters 0, 1, 2, 3 give 1, 2, 4 and 4 times the
  base size, and the size never exceeds 4 times the base size.
\<close>

theorem apply_martingale_multiplier:
  "(\<not> enable_martingale cfg \<longrightarrow>
      apply_martingale cfg symbol base_size lost s = (PyInt base_size, s))
   \<and> (enable_martingale cfg \<longrightarrow>
        loss_count (snd (apply_martingale cfg symbol base_size lost s)) symbol
          = (if lost then loss_count s symbol + 1 else 0)
      \<and> num_value (fst (apply_martingale cfg symbol base_size lost s))
          = real_of_int base_size
            * power_int 2 (min (loss_count (snd (apply_martingale cfg symbol base_size lost s)) symbol)
                               (martingale_max_doublings cfg))
      \<and> (0 \<le> min (loss_count (snd (apply_martingale cfg symbol base_size lost s)) symbol)
                    (martingale_max_doublings cfg) \<longrightarrow>
           fst (apply_martingale cfg symbol base_size lost s)
             = PyInt (base_size
                 * 2 ^ nat (min (loss_count (snd (apply_martingale cfg symbol base_size lost s)) symbol)
                                (martingale_max_doublings cfg)))))
   \<and> (enable_martingale cfg \<and> martingale_max_doublings cfg = 2 \<longrightarrow>
        (\<not> lost \<longrightarrow> fst (apply_martingale cfg symbol base_size lost s) = PyInt (base_size * 1))
      \<and> (lost \<and> loss_count s symbol = 0 \<longrightarrow>
           fst (apply_martingale cfg symbol base_size lost s) = PyInt (base_size * 2))
      \<and> (lost \<and> loss_count s symbol = 1 \<longrightarrow>
           fst (apply_martingale cfg symbol base_size lost s) = PyInt (base_size * 4))
      \<and> (lost \<and> loss_count s symbol = 2 \<longrightarrow>
           fst (apply_martingale cfg symbol base_size lost s) = PyInt (base_size * 4))
      \<and> \<bar>num_value (fst (apply_martingale cfg symbol base_size lost s))\<bar>
            \<le> 4 * \<bar>real_of_int base_size\<bar>)"
proof (cases "enable_martingale cfg")
  case False
  then show ?thesis by (simp add: apply_martingale_def)
next
  case True
  define counter where "counter = (if lost then loss_count s symbol + 1 else 0)"
  define losses where "losses = min counter (martingale_max_doublings cfg)"
  define s' where "s' = s\<lparr>consecutive_losses := (consecutive_losses s)(symbol \<mapsto> counter)\<rparr>"
  define res where "res = (if 0 \<le> losses then PyInt (base_size * 2 ^ nat losses)
                else PyFloat (real_of_int base_size * power_int 2 losses))"
  have r: "apply_martingale cfg symbol base_size lost s = (res, s')"
    using True by (simp add: apply_martingale_def Let_def counter_def losses_def s'_def res_def)
  have c: "loss_count s' symbol = counter"
    by (simp add: loss_count_def s'_def)
  have v: "num_value res = real_of_int base_size * power_int 2 losses"
    by (simp add: res_def power_int_def)
  have i: "0 \<le> losses \<Longrightarrow> res = PyInt (base_size * 2 ^ nat losses)"
    by (simp add: res_def)
  have b: "\<bar>num_value res\<bar> \<le> 4 * \<bar>real_of_int base_size\<bar>"
    if "martingale_max_doublings cfg = 2"
  proof -
    have "losses \<le> 2" using that by (simp add: losses_def)
    then have "power_int (2::real) losses \<le> power_int 2 2"
      by (intro power_int_increasing) simp_all
    then have p: "power_int (2::real) losses \<le> 4" by simp
    have "\<bar>real_of_int base_size * power_int 2 losses\<bar>
            = \<bar>real_of_int base_size\<bar> * power_int 2 losses"
      by (simp add: abs_mult)
    also have "\<dots> \<le> \<bar>real_of_int base_size\<bar> * 4"
      by (rule mult_left_mono [OF p]) simp
    finally show ?thesis by (simp add: v)
  qed
  have m0: "res = PyInt (base_size * 1)" if "martingale_max_doublings cfg = 2" "\<not> lost"
    using that by (simp add: res_def losses_def counter_def)
  have m1: "res = PyInt (base_size * 2)"
    if "martingale_max_doublings cfg = 2" "lost" "loss_count s symbol = 0"
    using that by (simp add: res_def losses_def counter_def)
  have m2: "res = PyInt (base_size * 4)"
    if "martingale_max_doublings cfg = 2" "lost" "loss_count s symbol = 1"
    using that by (simp add: res_def losses_def counter_def)
  have m3: "res = PyInt (base_size * 4)"
    if "martingale_max_doublings cfg = 2" "lost" "loss_count s symbol = 2"
    using that by (simp add: res_def losses_def counter_def)
  have l: "min (loss_count s' symbol) (martingale_max_doublings cfg) = losses"
    by (simp add: c losses_def)
  have k: "loss_count s' symbol = (if lost then loss_count s symbol + 1 else 0)"
    by (simp add: c counter_def)
  show ?thesis
    unfolding r fst_conv snd_conv l
    using True v i b m0 m1 m2 m3 k by blast
qed

theorem apply_martingale_multiplier_witness:
  "\<not> enable_martingale default_risk_config
   \<and> apply_martingale default_risk_config ''SPY'' 5 True (state_with_losses 1)
        = (PyInt 5, state_with_losses 1)
   \<and> enable_martingale martingale_config \<and> martingale_max_doublings martingale_config = 2
   \<and> fst (apply_martingale martingale_config ''SPY'' 5 False (state_with_losses 3)) = PyInt 5
   \<and> loss_count (state_with_losses 0) ''SPY'' = 0
   \<and> fst (apply_martingale martingale_config ''SPY'' 5 True (state_with_losses 0)) = PyInt 10
   \<and> loss_count (state_with_losses 1) ''SPY'' = 1
   \<and> fst (apply_martingale martingale_config ''SPY'' 5 True (state_with_losses 1)) = PyInt 20
   \<and> loss_count (state_with_losses 2) ''SPY'' = 2
   \<and> fst (apply_martingale martingale_config ''SPY'' 5 True (state_with_losses 2)) = PyInt 20
   \<and> loss_count (snd (apply_martingale martingale_config ''SPY'' 5 True (state_with_losses 2)))
        ''SPY'' = 3"
proof -
  have d: "\<not> enable_martingale default_risk_config"
    by (simp add: default_risk_config_def)
  have m: "enable_martingale martingale_config \<and> martingale_max_doublings martingale_config = 2"
    by (simp add: martingale_config_def default_risk_config_def)
  have l: "loss_count (state_with_losses c) ''SPY'' = c" for c
    by (simp add: loss_count_def state_with_losses_def)
  from apply_martingale_multiplier [of default_risk_config "''SPY''" 5 True "state_with_losses 1"]
       apply_martingale_multiplier [of martingale_config "''SPY''" 5 False "state_with_losses 3"]
       apply_martingale_multiplier [of martingale_config "''SPY''" 5 True "state_with_losses 0"]
       apply_martingale_multiplier [of martingale_config "''SPY''" 5 True "state_with_losses 1"]
       apply_martingale_multiplier [of martingale_config "''SPY''" 5 True "state_with_losses 2"]
       d m l [of 0] l [of 1] l [of 2]
  show ?thesis by simp
qed

subsection \<open>Trailing stops\<close>

lemma trailing_step_long:
  assumes "call_symbol c = symbol \<longrightarrow> call_is_long c"
    and "trailing_stops s symbol = Some v"
  shows "\<exists>v'. trailing_stops (trailing_step cfg s c) symbol = Some v' \<and> v \<le> v'"
  using assms
  by (auto simp add: trailing_step_def update_trailing_stop_def Let_def split: option.splits)

lemma trailing_step_short:
  assumes "call_symbol c = symbol \<longrightarrow> \<not> call_is_long c"
    and "trailing_stops s symbol = Some v"
  shows "\<exists>v'. trailing_stops (trailing_step cfg s c) symbol = Some v' \<and> v' \<le> v"
  using assms
  by (auto simp add: trailing_step_def update_trailing_stop_def Let_def split: option.splits)

lemma trailing_run_long:
  assumes "\<forall>c \<in> set calls. call_symbol c = symbol \<longrightarrow> call_is_long c"
    and "trailing_stops s symbol = Some v"
  shows "\<exists>v'. trailing_stops (trailing_run cfg calls s) symbol = Some v' \<and> v \<le> v'"
  using assms
proof (induction calls arbitrary: s v)
  case Nil
  then show ?case by (simp add: trailing_run_def)
next
  case (Cons c calls)
  from Cons.prems have "call_symbol c = symbol \<longrightarrow> call_is_long c" by simp
  from trailing_step_long [OF this Cons.prems(2)]
  obtain w where w: "trailing_stops (trailing_step cfg s c) symbol = Some w" "v \<le> w" by blast
  from Cons.prems have "\<forall>c \<in> set calls. call_symbol c = symbol \<longrightarrow> call_is_long c" by simp
  from Cons.IH [OF this w(1)]
  obtain v' where "trailing_stops (trailing_run cfg calls (trailing_step cfg s c)) symbol = Some v'"
    "w \<le> v'" by blast
  with w(2) show ?case by (auto simp add: trailing_run_def)
qed

lemma trailing_run_short:
  assumes "\<forall>c \<in> set calls. call_symbol c = symbol \<longrightarrow> \<not> call_is_long c"
    and "trailing_stops s symbol = Some v"
  shows "\<exists>v'. trailing_stops (trailing_run cfg calls s) symbol = Some v' \<and> v' \<le> v"
  using assms
proof (induction calls arbitrary: s v)
  case Nil
  then show ?case by (simp add: trailing_run_def)
next
  case (Cons c calls)
  from Cons.prems have "call_symbol c = symbol \<longrightarrow> \<not> call_is_long c" by simp
  from trailing_step_short [OF this Cons.prems(2)]
  obtain w where w: "trailing_stops (trailing_step cfg s c) symbol = Some w" "w \<le> v" by blast
  from Cons.prems have "\<forall>c \<in> set calls. call_symbol c = symbol \<longrightarrow> \<not> call_is_long c" by simp
  from Cons.IH [OF this w(1)]
  obtain v' where "trailing_stops (trailing_run cfg calls (trailing_step cfg s c)) symbol = Some v'"
    "v' \<le> w" by blast
  with w(2) show ?case by (auto simp add: trailing_run_def)
qed

lemma update_trailing_stop_stored:
  assumes "update_trailing_stop cfg symbol p en is_long s = Inr (Some r, s')"
  shows "trailing_stops s' symbol = Some r
       \<and> r = (case trailing_stops s symbol of
                None \<Rightarrow> trail_candidate cfg p is_long
              | Some v \<Rightarrow> (if is_long then max (trail_candidate cfg p True) v
                          else min (trail_candidate cfg p False) v))"
  using assms
  by (cases is_long)
    (auto simp add: update_trailing_stop_def Let_def split: if_splits option.splits)

text \<open>The call on a position whose profit ratio has reached the activation threshold.\<close>

lemma update_trailing_stop_activated:
  assumes "trailing_stop_enabled cfg" and "en \<noteq> 0"
    and "Fin (trailing_stop_activation_pct cfg) \<le> profit_pct p en is_long"
    and "new_stop = (case trailing_stops s symbol of
                       None \<Rightarrow> trail_candidate cfg p is_long
                     | Some v \<Rightarrow> (if is_long then max (trail_candidate cfg p True) v
                                 else min (trail_candidate cfg p False) v))"
  shows "update_trailing_stop cfg symbol p en is_long s
           = Inr (Some new_stop, s\<lparr>trailing_stops := (trailing_stops s)(symbol \<mapsto> new_stop)\<rparr>)"
  using assms(1,2,3) unfolding assms(4)
  by (cases is_long) (auto simp add: update_trailing_stop_def Let_def split: option.splits)

lemma dbl_97_97: "dbl 97.97979797979798 = 1723678834654901 / 17592186044416"
  by (simp add: dbl_def double_eval)

lemma dbl_45_6953: "dbl 45.6953 = 1607760437910805 / 35184372088832"
  by (simp add: dbl_def double_eval)

lemma dbl_45_02: "dbl 45.02 = 6336001725756867 / 140737488355328"
  by (simp add: dbl_def double_eval)

text \<open>The same values with the literal in the simplifier's normal form.\<close>

lemma dbl_config_values:
  "dbl (1 / 10) = 3602879701896397 / 36028797018963968"
  "dbl (1 / 2) = 1 / 2"
  "dbl (3 / 200) = 1080863910568919 / 72057594037927936"
  "dbl (1 / 100) = 5764607523034235 / 576460752303423488"
  using dbl_0_10 dbl_0_50 dbl_0_015 dbl_0_01 by simp_all

lemmas trailing_eval = update_trailing_stop_def profit_pct_def trail_candidate_def fsub_def
  fmul_def double_risk_config_def default_risk_config_def dbl_config_values
  state_with_stop_def init_risk_manager_def

lemma update_trailing_stop_at_97:
  "update_trailing_stop double_risk_config ''SPY'' (dbl 97.97979797979798) 90 True
       (state_with_stop (Fin 98))
     = Inr (Some (Fin 98), state_with_stop (Fin 98))"
  unfolding dbl_97_97 by (simp add: trailing_eval double_eval)

lemma update_trailing_stop_at_99:
  "update_trailing_stop double_risk_config ''SPY'' 100 90 True (state_with_stop (Fin 98))
     = Inr (Some (Fin 99), state_with_stop (Fin 99))"
  by (simp add: trailing_eval double_eval)

lemma update_trailing_stop_short_at_101:
  "update_trailing_stop double_risk_config ''SPY'' 100 110 False (state_with_stop (Fin 102))
     = Inr (Some (Fin 101), state_with_stop (Fin 101))"
  by (simp add: trailing_eval double_eval)

lemma trail_candidate_values:
  "trail_candidate double_risk_config (dbl 97.97979797979798) True = Fin 97"
  "trail_candidate double_risk_config 100 True = Fin 99"
  "trail_candidate double_risk_config 100 False = Fin 101"
  unfolding dbl_97_97 by (simp_all add: trailing_eval double_eval)

lemma trailing_run_long_calls:
  "trailing_stops (trailing_run double_risk_config long_calls (state_with_stop (Fin 98))) ''SPY''
     = Some (Fin 99)"
  unfolding long_calls_def dbl_97_97
  by (simp add: trailing_run_def trailing_step_def trailing_eval double_eval)

lemma trailing_run_short_calls:
  "trailing_stops (trailing_run double_risk_config short_calls (state_with_stop (Fin 102))) ''SPY''
     = Some (Fin 101)"
  unfolding short_calls_def
  by (simp add: trailing_run_def trailing_step_def trailing_eval double_eval)

text \<open>
  At price 45.6953 and entry 45.02 the rounded profit ratio is the double 0.015 itself,
  so the call activates, although the exact ratio of the two doubles is below it.
\<close>

lemma profit_pct_at_threshold:
  "profit_pct (dbl 45.6953) (dbl 45.02) True = Fin (dbl 0.015)"
  unfolding profit_pct_def fsub_def dbl_45_6953 dbl_45_02 dbl_0_015
  by (simp add: double_eval)

lemma exact_ratio_below_threshold:
  "(dbl 45.6953 - dbl 45.02) / dbl 45.02 < dbl 0.015"
  unfolding dbl_45_6953 dbl_45_02 dbl_0_015 by simp

lemma trail_candidate_at_45:
  "trail_candidate double_risk_config (dbl 45.6953) True
     = Fin (1591682833531697 / 35184372088832)"
  unfolding dbl_45_6953 by (simp add: trailing_eval double_eval)

lemma update_trailing_stop_at_threshold:
  "update_trailing_stop double_risk_config ''SPY'' (dbl 45.6953) (dbl 45.02) True
       (init_risk_manager example_day)
     = Inr (Some (Fin (1591682833531697 / 35184372088832)),
            (init_risk_manager example_day)\<lparr>trailing_stops :=
               (trailing_stops (init_risk_manager example_day))
                 (''SPY'' \<mapsto> Fin (1591682833531697 / 35184372088832))\<rparr>)"
proof (rule update_trailing_stop_activated)
  show "trailing_stop_enabled double_risk_config"
    by (rule double_risk_config_fields)
  show "dbl 45.02 \<noteq> 0"
    unfolding dbl_45_02 by simp
  show "Fin (trailing_stop_activation_pct double_risk_config)
          \<le> profit_pct (dbl 45.6953) (dbl 45.02) True"
    unfolding profit_pct_at_threshold double_risk_config_fields by simp
  show "Fin (1591682833531697 / 35184372088832)
          = (case trailing_stops (init_risk_manager example_day) ''SPY'' of
               None \<Rightarrow> trail_candidate double_risk_config (dbl 45.6953) True
             | Some v \<Rightarrow> if True then max (trail_candidate double_risk_config (dbl 45.6953) True) v
                         else min (trail_candidate double_risk_config (dbl 45.6953) False) v)"
    unfolding trail_candidate_at_45 by (simp add: init_risk_manager_def)
qed

lemma update_trailing_stop_not_activated:
  "update_trailing_stop double_risk_config ''SPY'' (181 / 2) 90 True (state_with_stop (Fin 98))
     = Inr (None, state_with_stop (Fin 98))"
  by (simp add: trailing_eval double_eval)

text \<open>
  Claim C2. Over any run of \<^verbatim>\<open>update_trailing_stop\<close> calls, whatever happened before, if
  the calls for a symbol are all for a long position, its stored trailing stop, once
  set, stays set and never decreases; if they are all for a short position it never
  increases. A call that stores a value stores the maximum (long) or minimum (short) of
  the candidate \<open>current_price \<mp> current_price * trailing_stop_distance_pct\<close> and the
  value stored before. With 98 stored for a long position, a candidate of 97 leaves 98
  and a candidate of 99 stores 99.
\<close>

theorem trailing_stop_ratchet:
  "((\<forall>c \<in> set calls. call_symbol c = symbol \<longrightarrow> call_is_long c)
      \<and> trailing_stops (trailing_run cfg before s) symbol = Some v \<longrightarrow>
      (\<exists>v'. trailing_stops (trailing_run cfg (before @ calls) s) symbol = Some v' \<and> v \<le> v'))
   \<and> ((\<forall>c \<in> set calls. call_symbol c = symbol \<longrightarrow> \<not> call_is_long c)
      \<and> trailing_stops (trailing_run cfg before s) symbol = Some v \<longrightarrow>
      (\<exists>v'. trailing_stops (trailing_run cfg (before @ calls) s) symbol = Some v' \<and> v' \<le> v))
   \<and> (update_trailing_stop cfg symbol p en True s = Inr (Some r, s')
      \<and> trailing_stops s symbol = Some v \<longrightarrow>
      trailing_stops s' symbol = Some (max (trail_candidate cfg p True) v))
   \<and> (update_trailing_stop cfg symbol p en False s = Inr (Some r, s')
      \<and> trailing_stops s symbol = Some v \<longrightarrow>
      trailing_stops s' symbol = Some (min (trail_candidate cfg p False) v))
   \<and> (update_trailing_stop cfg symbol p en True s = Inr (Some r, s')
      \<and> trailing_stops s symbol = Some (Fin 98) \<and> trail_candidate cfg p True = Fin 97 \<longrightarrow>
      trailing_stops s' symbol = Some (Fin 98))
   \<and> (update_trailing_stop cfg symbol p en True s = Inr (Some r, s')
      \<and> trailing_stops s symbol = Some (Fin 98) \<and> trail_candidate cfg p True = Fin 99 \<longrightarrow>
      trailing_stops s' symbol = Some (Fin 99))"
proof -
  have app: "trailing_run cfg (before @ calls) s = trailing_run cfg calls (trailing_run cfg before s)"
    by (simp add: trailing_run_def)
  have up: "trailing_stops s' symbol = Some (max (trail_candidate cfg p True) w)"
    if "update_trailing_stop cfg symbol p en True s = Inr (Some r, s')"
      and "trailing_stops s symbol = Some w" for w
    using update_trailing_stop_stored [OF that(1)] that(2) by simp
  have down: "trailing_stops s' symbol = Some (min (trail_candidate cfg p False) w)"
    if "update_trailing_stop cfg symbol p en False s = Inr (Some r, s')"
      and "trailing_stops s symbol = Some w" for w
    using update_trailing_stop_stored [OF that(1)] that(2) by simp
  have e97: "trailing_stops s' symbol = Some (Fin 98)"
    if "update_trailing_stop cfg symbol p en True s = Inr (Some r, s')"
      and "trailing_stops s symbol = Some (Fin 98)" and "trail_candidate cfg p True = Fin 97"
    using up [OF that(1) that(2)] that(3) by simp
  have e99: "trailing_stops s' symbol = Some (Fin 99)"
    if "update_trailing_stop cfg symbol p en True s = Inr (Some r, s')"
      and "trailing_stops s symbol = Some (Fin 98)" and "trail_candidate cfg p True = Fin 99"
    using up [OF that(1) that(2)] that(3) by simp
  show ?thesis
    unfolding app
    using trailing_run_long [of calls symbol "trailing_run cfg before s" v cfg]
      trailing_run_short [of calls symbol "trailing_run cfg before s" v cfg]
      up [of v] down [of v] e97 e99
    by blast
qed

theorem trailing_stop_ratchet_witness:
  "trailing_stops (trailing_run double_risk_config [] (state_with_stop (Fin 98))) ''SPY''
     = Some (Fin 98)
   \<and> (\<exists>v'. trailing_stops (trailing_run double_risk_config ([] @ long_calls)
                (state_with_stop (Fin 98))) ''SPY'' = Some v' \<and> Fin 98 \<le> v')
   \<and> trailing_stops (trailing_run double_risk_config long_calls (state_with_stop (Fin 98))) ''SPY''
        = Some (Fin 99)
   \<and> trailing_stops (trailing_run double_risk_config [] (state_with_stop (Fin 102))) ''SPY''
        = Some (Fin 102)
   \<and> (\<exists>v'. trailing_stops (trailing_run double_risk_config ([] @ short_calls)
                (state_with_stop (Fin 102))) ''SPY'' = Some v' \<and> v' \<le> Fin 102)
   \<and> trailing_stops (trailing_run double_risk_config short_calls (state_with_stop (Fin 102)))
        ''SPY'' = Some (Fin 101)
   \<and> update_trailing_stop double_risk_config ''SPY'' (dbl 97.97979797979798) 90 True
        (state_with_stop (Fin 98)) = Inr (Some (Fin 98), state_with_stop (Fin 98))
   \<and> trail_candidate double_risk_config (dbl 97.97979797979798) True = Fin 97
   \<and> trailing_stops (state_with_stop (Fin 98)) ''SPY'' = Some (Fin 98)
   \<and> update_trailing_stop double_risk_config ''SPY'' 100 90 True (state_with_stop (Fin 98))
        = Inr (Some (Fin 99), state_with_stop (Fin 99))
   \<and> trail_candidate double_risk_config 100 True = Fin 99
   \<and> trailing_stops (state_with_stop (Fin 99)) ''SPY'' = Some (Fin 99)
   \<and> update_trailing_stop double_risk_config ''SPY'' 100 110 False (state_with_stop (Fin 102))
        = Inr (Some (Fin 101), state_with_stop (Fin 101))
   \<and> trailing_stops (state_with_stop (Fin 101)) ''SPY''
        = Some (min (trail_candidate double_risk_config 100 False) (Fin 102))"
proof -
  have l: "\<forall>c \<in> set long_calls. call_symbol c = ''SPY'' \<longrightarrow> call_is_long c"
    by (simp add: long_calls_def)
  have sh: "\<forall>c \<in> set short_calls. call_symbol c = ''SPY'' \<longrightarrow> \<not> call_is_long c"
    by (simp add: short_calls_def)
  have st: "trailing_stops (state_with_stop x) ''SPY'' = Some x" for x
    by (simp add: state_with_stop_def)
  have h98: "trailing_stops (trailing_run double_risk_config [] (state_with_stop (Fin 98))) ''SPY''
               = Some (Fin 98)"
    by (simp add: trailing_run_def st)
  have h102: "trailing_stops (trailing_run double_risk_config [] (state_with_stop (Fin 102))) ''SPY''
               = Some (Fin 102)"
    by (simp add: trailing_run_def st)
  note t1 = trailing_stop_ratchet [where calls = long_calls and symbol = "''SPY''"
      and cfg = double_risk_config and before = "[]" and s = "state_with_stop (Fin 98)"
      and v = "Fin 98" and p = "dbl 97.97979797979798" and en = 90 and r = "Fin 98"
      and s' = "state_with_stop (Fin 98)"]
  note t2 = trailing_stop_ratchet [where calls = short_calls and symbol = "''SPY''"
      and cfg = double_risk_config and before = "[]" and s = "state_with_stop (Fin 102)"
      and v = "Fin 102" and p = 100 and en = 110 and r = "Fin 101"
      and s' = "state_with_stop (Fin 101)"]
  note t3 = trailing_stop_ratchet [where calls = "[]" and symbol = "''SPY''"
      and cfg = double_risk_config and before = "[]" and s = "state_with_stop (Fin 98)"
      and v = "Fin 98" and p = 100 and en = 90 and r = "Fin 99"
      and s' = "state_with_stop (Fin 99)"]
  from t1 l h98
  have a1: "\<exists>v'. trailing_stops (trailing_run double_risk_config ([] @ long_calls)
                (state_with_stop (Fin 98))) ''SPY'' = Some v' \<and> Fin 98 \<le> v'"
    by blast
  from t2 sh h102
  have a2: "\<exists>v'. trailing_stops (trailing_run double_risk_config ([] @ short_calls)
                (state_with_stop (Fin 102))) ''SPY'' = Some v' \<and> v' \<le> Fin 102"
    by blast
  from t1 update_trailing_stop_at_97 st [of "Fin 98"] trail_candidate_values(1)
  have a3: "trailing_stops (state_with_stop (Fin 98)) ''SPY'' = Some (Fin 98)" by blast
  from t3 update_trailing_stop_at_99 st [of "Fin 98"] trail_candidate_values(2)
  have a4: "trailing_stops (state_with_stop (Fin 99)) ''SPY'' = Some (Fin 99)" by blast
  from t2 update_trailing_stop_short_at_101 st [of "Fin 102"]
  have a5: "trailing_stops (state_with_stop (Fin 101)) ''SPY''
        = Some (min (trail_candidate double_risk_config 100 False) (Fin 102))" by blast
  from a1 a2 a3 a4 a5 trailing_run_long_calls trailing_run_short_calls trail_candidate_values
    update_trailing_stop_at_97 update_trailing_stop_at_99 update_trailing_stop_short_at_101
    h98 h102
  show ?thesis by blast
qed

text \<open>
  Claim C4, as amended. \<^verbatim>\<open>update_trailing_stop\<close> returns (it raises only when trailing
  stops are enabled and the entry price is zero), and it returns a price exactly when
  trailing stops are enabled and the profit ratio, as computed in double precision, has
  reached \<^verbatim>\<open>trailing_stop_activation_pct\<close>. The price returned is the value stored for
  the symbol by the call: the candidate when nothing was stored, else the maximum (long)
  or minimum (short) of the candidate and the value stored before, whether or not that
  differs from the value stored before. When it returns \<^verbatim>\<open>None\<close> the state is unchanged.
\<close>

theorem update_trailing_stop_returns_when_active:
  "(en \<noteq> 0 \<or> \<not> trailing_stop_enabled cfg \<longrightarrow>
      (\<exists>r s'. update_trailing_stop cfg symbol p en is_long s = Inr (r, s')))
   \<and> (update_trailing_stop cfg symbol p en is_long s = Inr (r, s') \<longrightarrow>
        ((r \<noteq> None) \<longleftrightarrow>
           (trailing_stop_enabled cfg
            \<and> Fin (trailing_stop_activation_pct cfg) \<le> profit_pct p en is_long))
      \<and> (r = None \<longrightarrow> s' = s)
      \<and> (\<forall>x. r = Some x \<longrightarrow>
             s' = s\<lparr>trailing_stops := (trailing_stops s)(symbol \<mapsto> x)\<rparr>
           \<and> x = (case trailing_stops s symbol of
                    None \<Rightarrow> trail_candidate cfg p is_long
                  | Some v \<Rightarrow> (if is_long then max (trail_candidate cfg p True) v
                              else min (trail_candidate cfg p False) v))))"
  by (cases is_long)
    (auto simp add: update_trailing_stop_def Let_def split: if_splits option.splits)

theorem update_trailing_stop_returns_when_active_witness:
  "dbl 45.02 \<noteq> 0
   \<and> (\<exists>r s'. update_trailing_stop double_risk_config ''SPY'' (dbl 45.6953) (dbl 45.02) True
                (init_risk_manager example_day) = Inr (r, s'))
   \<and> update_trailing_stop double_risk_config ''SPY'' (dbl 45.6953) (dbl 45.02) True
        (init_risk_manager example_day)
       = Inr (Some (Fin (1591682833531697 / 35184372088832)),
              (init_risk_manager example_day)\<lparr>trailing_stops :=
                 (trailing_stops (init_risk_manager example_day))
                   (''SPY'' \<mapsto> Fin (1591682833531697 / 35184372088832))\<rparr>)
   \<and> trailing_stop_enabled double_risk_config
   \<and> Fin (trailing_stop_activation_pct double_risk_config)
        \<le> profit_pct (dbl 45.6953) (dbl 45.02) True
   \<and> profit_pct (dbl 45.6953) (dbl 45.02) True = Fin (dbl 0.015)
   \<and> (dbl 45.6953 - dbl 45.02) / dbl 45.02 < dbl 0.015
   \<and> update_trailing_stop double_risk_config ''SPY'' (181 / 2) 90 True (state_with_stop (Fin 98))
        = Inr (None, state_with_stop (Fin 98))
   \<and> \<not> Fin (trailing_stop_activation_pct double_risk_config) \<le> profit_pct (181 / 2) 90 True"
proof -
  have n: "dbl 45.02 \<noteq> 0" unfolding dbl_45_02 by simp
  note t1 = update_trailing_stop_returns_when_active [where cfg = double_risk_config
      and symbol = "''SPY''" and p = "dbl 45.6953" and en = "dbl 45.02" and is_long = True
      and s = "init_risk_manager example_day"
      and r = "Some (Fin (1591682833531697 / 35184372088832))"
      and s' = "(init_risk_manager example_day)\<lparr>trailing_stops :=
                 (trailing_stops (init_risk_manager example_day))
                   (''SPY'' \<mapsto> Fin (1591682833531697 / 35184372088832))\<rparr>"]
  note t2 = update_trailing_stop_returns_when_active [where cfg = double_risk_config
      and symbol = "''SPY''" and p = "181 / 2" and en = 90 and is_long = True
      and s = "state_with_stop (Fin 98)" and r = None and s' = "state_with_stop (Fin 98)"]
  from t1 n have a: "\<exists>r s'. update_trailing_stop double_risk_config ''SPY'' (dbl 45.6953)
      (dbl 45.02) True (init_risk_manager example_day) = Inr (r, s')" by blast
  from t1 update_trailing_stop_at_threshold
  have b: "trailing_stop_enabled double_risk_config
     \<and> Fin (trailing_stop_activation_pct double_risk_config)
          \<le> profit_pct (dbl 45.6953) (dbl 45.02) True"
    by blast
  from t2 update_trailing_stop_not_activated double_risk_config_fields(5)
  have c: "\<not> Fin (trailing_stop_activation_pct double_risk_config)
             \<le> profit_pct (181 / 2) 90 True"
    by blast
  from n a b c update_trailing_stop_at_threshold update_trailing_stop_not_activated
    profit_pct_at_threshold exact_ratio_below_threshold
  show ?thesis by blast
qed

text \<open>
  With 98 stored for a long position and a candidate of 97, the call returns 98 although
  the stored value, and the whole state, is unchanged.
\<close>

theorem update_trailing_stop_unchanged_counterexample:
  "trailing_stops (state_with_stop (Fin 98)) ''SPY'' = Some (Fin 98)
   \<and> trail_candidate double_risk_config (dbl 97.97979797979798) True = Fin 97
   \<and> update_trailing_stop double_risk_config ''SPY'' (dbl 97.97979797979798) 90 True
        (state_with_stop (Fin 98))
       = Inr (Some (Fin 98), state_with_stop (Fin 98))"
  using update_trailing_stop_at_97 trail_candidate_values(1)
  by (simp add: state_with_stop_def)

subsection \<open>Exits from the monitor loop\<close>









end
